theory Spec2Isabelle
  imports Complex_Main
begin

section \<open>JavaScript values\<close>

text \<open>
  The server (\<^verbatim>\<open>src/server.js\<close>) is untyped: request bodies and the contents of
  \<^verbatim>\<open>books.json\<close> and \<^verbatim>\<open>reviews.json\<close> are whatever JSON the client or the file
  holds. The model therefore works on a datatype of JavaScript values.

  A number is \<open>NaN\<close>, an infinity or a finite double, written as the rational it equals
  (negative zero is not told apart from zero: both are falsy, compare alike and print
  as \<open>0\<close>).
  A string is a list of 8-bit characters, standing for code units below 256. An object is
  an association list in insertion order with one entry for each key, as \<open>JSON.parse\<close>
  builds it; reading a key takes its entry (the engine's reordering of integer-like keys
  is not modelled).
\<close>

datatype jsnum = NaN | NInf | PInf | Fin rat

datatype jsval =
    JUndefined
  | JNull
  | JBool bool
  | JNum jsnum
  | JStr string
  | JArr "jsval list"
  | JObj "(string \<times> jsval) list"

datatype js_error =
    IOError string  \<comment> \<open>\<open>fs.readFile\<close>, \<open>JSON.parse\<close> or \<open>fs.writeFile\<close> threw, with this message\<close>
  | TypeError       \<comment> \<open>a property of \<open>undefined\<close>/\<open>null\<close> was read, or a value has no primitive form\<close>

text \<open>\<open>!v\<close>: the falsy values are \<open>undefined\<close>, \<open>null\<close>, \<open>false\<close>, \<open>0\<close>, \<open>NaN\<close> and \<open>""\<close>.\<close>

fun falsy :: "jsval \<Rightarrow> bool" where
  "falsy JUndefined = True"
| "falsy JNull = True"
| "falsy (JBool b) = (\<not> b)"
| "falsy (JNum n) = (n = NaN \<or> n = Fin 0)"
| "falsy (JStr s) = (s = [])"
| "falsy (JArr xs) = False"
| "falsy (JObj fs) = False"

fun nullish :: "jsval \<Rightarrow> bool" where
  "nullish JUndefined = True"
| "nullish JNull = True"
| "nullish v = False"

text \<open>
  \<open>o.k\<close> for a value \<open>o\<close> that is neither \<open>undefined\<close> nor \<open>null\<close>. The handlers read
  named fields only (\<open>title\<close>, \<open>id\<close>, \<open>books\<close>, ...), never \<open>length\<close> or an index, so
  on arrays, strings, numbers and booleans the result is \<open>undefined\<close>.
\<close>

fun lookup :: "(string \<times> jsval) list \<Rightarrow> string \<Rightarrow> jsval" where
  "lookup [] k = JUndefined"
| "lookup ((k', v) # fs) k = (if k' = k then v else lookup fs k)"

fun get_field :: "jsval \<Rightarrow> string \<Rightarrow> jsval" where
  "get_field (JObj fs) k = lookup fs k"
| "get_field v k = JUndefined"

text \<open>\<open>o.k\<close> in general: reading a property of \<open>undefined\<close> or \<open>null\<close> throws a TypeError.\<close>

definition read_prop :: "jsval \<Rightarrow> string \<Rightarrow> js_error + jsval" where
  "read_prop v k = (if nullish v then Inl TypeError else Inr (get_field v k))"

text \<open>
  \<open>o[k] = v\<close> on an object under construction: an existing key keeps its position and
  takes the new value, a new key goes to the end.
\<close>

fun set_field :: "(string \<times> jsval) list \<Rightarrow> string \<Rightarrow> jsval \<Rightarrow> (string \<times> jsval) list" where
  "set_field [] k v = [(k, v)]"
| "set_field ((k', v') # fs) k v = (if k' = k then (k, v) # fs else (k', v') # set_field fs k v)"

text \<open>\<open>{...acc, ...src}\<close>: the entries of \<open>src\<close> are assigned in order.\<close>

fun assign_all :: "(string \<times> jsval) list \<Rightarrow> (string \<times> jsval) list \<Rightarrow> (string \<times> jsval) list" where
  "assign_all acc [] = acc"
| "assign_all acc ((k, v) # src) = assign_all (set_field acc k v) src"

text \<open>
  \<open>data.books\<close> followed by an array method (\<open>filter\<close>, \<open>map\<close>, \<open>find\<close>, \<open>push\<close>): a
  TypeError unless \<open>data\<close> is an object whose field is an array.
\<close>

definition collection :: "jsval \<Rightarrow> string \<Rightarrow> js_error + jsval list" where
  "collection data k =
     (case read_prop data k of
        Inl e \<Rightarrow> Inl e
      | Inr (JArr xs) \<Rightarrow> Inr xs
      | Inr _ \<Rightarrow> Inl TypeError)"

section \<open>Numbers\<close>

text \<open>
  Rounding to the nearest double, ties to even: \<open>to_double q\<close> is the double that
  IEEE 754 arithmetic returns for the exact result \<open>q\<close>: a multiple of \<open>2^(e-52)\<close>,
  where \<open>e\<close> is the exponent of \<open>q\<close>. Below \<open>2^-1022\<close> the spacing of the subnormal
  numbers is used, and a result of \<open>2^1024\<close> or more is an infinity.
\<close>

definition pow2 :: "int \<Rightarrow> rat" where
  "pow2 k = (if 0 \<le> k then 2 ^ nat k else 1 / 2 ^ nat (- k))"

function bit_length :: "int \<Rightarrow> int" where
  "bit_length n = (if n \<le> 0 then 0 else 1 + bit_length (n div 2))"
  by pat_completeness auto
termination
  by (relation "measure nat") auto

declare bit_length.simps [simp del]

text \<open>
  \<open>ilog2 a\<close> is the exponent of a positive \<open>a\<close>: the \<open>e\<close> with \<open>2^e \<le> a < 2^(e+1)\<close>.
\<close>

definition ilog2 :: "rat \<Rightarrow> int" where
  "ilog2 a = (if 1 \<le> a then bit_length \<lfloor>a\<rfloor> - 1 else - bit_length (\<lceil>1 / a\<rceil> - 1))"

definition round_half_even :: "rat \<Rightarrow> int" where
  "round_half_even x =
     (let f = \<lfloor>x\<rfloor>; d = x - of_int f
      in if d < 1 / 2 then f else if 1 / 2 < d then f + 1 else if even f then f else f + 1)"

definition to_double :: "rat \<Rightarrow> jsnum" where
  "to_double q =
     (if q = 0 then Fin 0
      else
        (let a = \<bar>q\<bar>;
             e = max (ilog2 a) (- 1022);
             u = pow2 (e - 52);
             m = round_half_even (a / u)
         in if 1023 < e \<or> (e = 1023 \<and> m = 2 ^ 53) then (if q < 0 then NInf else PInf)
            else Fin (if q < 0 then - (of_int m * u) else of_int m * u)))"

text \<open>
  A number of a JSON text is the double nearest to its literal; \<open>as_double\<close> makes that
  step for a number written here as another rational, and leaves a double as it is.
\<close>

fun as_double :: "jsnum \<Rightarrow> jsnum" where
  "as_double (Fin q) = to_double q"
| "as_double n = n"

text \<open>The product of two doubles.\<close>

fun times :: "jsnum \<Rightarrow> jsnum \<Rightarrow> jsnum" where
  "times (Fin a) (Fin b) = to_double (a * b)"
| "times NaN y = NaN"
| "times x NaN = NaN"
| "times (Fin a) PInf = (if a = 0 then NaN else if a > 0 then PInf else NInf)"
| "times (Fin a) NInf = (if a = 0 then NaN else if a > 0 then NInf else PInf)"
| "times PInf (Fin b) = (if b = 0 then NaN else if b > 0 then PInf else NInf)"
| "times NInf (Fin b) = (if b = 0 then NaN else if b > 0 then NInf else PInf)"
| "times PInf PInf = PInf"
| "times NInf NInf = PInf"
| "times PInf NInf = NInf"
| "times NInf PInf = NInf"

text \<open>\<open>x * y\<close> on numbers.\<close>

definition js_mul :: "jsnum \<Rightarrow> jsnum \<Rightarrow> jsnum" where
  "js_mul x y = times (as_double x) (as_double y)"

text \<open>
  \<open>x + y\<close> and \<open>x - y\<close> on numbers, without rounding. The handlers add 1 to an integer,
  which is exact up to \<open>2^53\<close>, and use a difference for its sign only, which is the sign
  of the exact difference.
\<close>

fun js_add :: "jsnum \<Rightarrow> jsnum \<Rightarrow> jsnum" where
  "js_add (Fin a) (Fin b) = Fin (a + b)"
| "js_add NaN y = NaN"
| "js_add x NaN = NaN"
| "js_add PInf NInf = NaN"
| "js_add NInf PInf = NaN"
| "js_add PInf y = PInf"
| "js_add NInf y = NInf"
| "js_add (Fin a) PInf = PInf"
| "js_add (Fin a) NInf = NInf"

fun js_neg :: "jsnum \<Rightarrow> jsnum" where
  "js_neg NaN = NaN"
| "js_neg PInf = NInf"
| "js_neg NInf = PInf"
| "js_neg (Fin a) = Fin (- a)"

definition js_sub :: "jsnum \<Rightarrow> jsnum \<Rightarrow> jsnum" where
  "js_sub x y = js_add x (js_neg y)"

text \<open>\<open>x >= y\<close> on numbers: false as soon as one side is \<open>NaN\<close>.\<close>

fun js_ge :: "jsnum \<Rightarrow> jsnum \<Rightarrow> bool" where
  "js_ge NaN y = False"
| "js_ge x NaN = False"
| "js_ge PInf y = True"
| "js_ge x NInf = True"
| "js_ge NInf y = False"
| "js_ge x PInf = False"
| "js_ge (Fin a) (Fin b) = (b \<le> a)"


section \<open>Decimal numerals\<close>

definition digit_char :: "nat \<Rightarrow> char" where
  "digit_char d = ''0123456789'' ! d"

fun digits :: "nat \<Rightarrow> string" where
  "digits n = (if n < 10 then [digit_char n] else digits (n div 10) @ [digit_char (n mod 10)])"

declare digits.simps [simp del]

definition int_string :: "int \<Rightarrow> string" where
  "int_string n = (if n < 0 then CHR ''-'' # digits (nat (- n)) else digits (nat n))"

section \<open>The environment: language built-ins and clock\<close>

text \<open>
  What the handlers take from the JavaScript engine and the operating system, and the
  model does not compute, is a parameter:
  \<^item> \<open>date_parse s\<close> is \<open>Date.parse(s)\<close>, the time value of a date string in
    milliseconds, \<open>None\<close> for \<open>NaN\<close>;
  \<^item> \<open>string_to_number s\<close> is \<open>Number(s)\<close> on a string;
  \<^item> \<open>fraction_to_string q\<close> is \<open>String(q)\<close> for a finite number that does not print
    as a plain decimal integer;
  \<^item> \<open>sort_inconsistent cmp xs\<close> is the order in which \<open>Array.prototype.sort\<close> leaves
    \<open>xs\<close> when \<open>cmp\<close> is not a consistent comparator for its elements, which the
    language leaves to the implementation: the positions in \<open>xs\<close> of the first, second,
    ... element of the result;
  \<^item> \<open>random_uuid\<close> is the result of \<open>crypto.randomUUID()\<close> and \<open>now_iso\<close> that of
    \<open>new Date().toISOString()\<close> during the request.
\<close>

record env =
  date_parse :: "string \<Rightarrow> int option"
  string_to_number :: "string \<Rightarrow> jsnum"
  fraction_to_string :: "rat \<Rightarrow> string"
  sort_inconsistent :: "(jsval \<Rightarrow> jsval \<Rightarrow> jsnum) \<Rightarrow> jsval list \<Rightarrow> nat list"
  random_uuid :: string
  now_iso :: string

section \<open>Conversions\<close>

text \<open>
  \<open>Number.prototype.toString()\<close>: an integer below \<open>10^21\<close> in magnitude prints as its
  decimal digits.
\<close>

definition number_to_string :: "env \<Rightarrow> jsnum \<Rightarrow> string" where
  "number_to_string E n =
     (case n of
        NaN \<Rightarrow> ''NaN''
      | PInf \<Rightarrow> ''Infinity''
      | NInf \<Rightarrow> ''-Infinity''
      | Fin q \<Rightarrow>
          if q = of_int \<lfloor>q\<rfloor> \<and> \<bar>q\<bar> < 10 ^ 21 then int_string \<lfloor>q\<rfloor>
          else fraction_to_string E q)"

text \<open>
  \<open>String(v)\<close>. An object of a JSON text has no methods of its own: it prints as
  \<open>[object Object]\<close> through \<open>Object.prototype.toString\<close>, unless it has a field named
  \<open>toString\<close>, which hides that method by a value that cannot be called; the conversion
  then throws a TypeError (\<open>valueOf\<close>, own or inherited, never yields a primitive
  either). An array prints as its elements joined by commas, \<open>null\<close> and \<open>undefined\<close>
  elements as the empty string.
\<close>

fun to_string :: "env \<Rightarrow> jsval \<Rightarrow> js_error + string"
  and join_strings :: "env \<Rightarrow> jsval list \<Rightarrow> js_error + string" where
  "to_string E (JStr s) = Inr s"
| "to_string E JUndefined = Inr ''undefined''"
| "to_string E JNull = Inr ''null''"
| "to_string E (JBool b) = Inr (if b then ''true'' else ''false'')"
| "to_string E (JNum n) = Inr (number_to_string E n)"
| "to_string E (JObj fs) =
     (if ''toString'' \<in> set (map fst fs) then Inl TypeError else Inr ''[object Object]'')"
| "to_string E (JArr xs) = join_strings E xs"
| "join_strings E [] = Inr []"
| "join_strings E (x # xs) =
     (case (if nullish x then Inr [] else to_string E x) of
        Inl e \<Rightarrow> Inl e
      | Inr s \<Rightarrow>
          (if xs = [] then Inr s
           else (case join_strings E xs of Inl e \<Rightarrow> Inl e | Inr t \<Rightarrow> Inr (s @ '','' @ t))))"

text \<open>
  \<open>Number(v)\<close>, as the operator \<open>*\<close> applies it to each operand: an object or an array
  is first turned into its string.
\<close>

fun to_number :: "env \<Rightarrow> jsval \<Rightarrow> js_error + jsnum" where
  "to_number E (JNum n) = Inr n"
| "to_number E JUndefined = Inr NaN"
| "to_number E JNull = Inr (Fin 0)"
| "to_number E (JBool b) = Inr (Fin (if b then 1 else 0))"
| "to_number E (JStr s) = Inr (string_to_number E s)"
| "to_number E v =
     (case to_string E v of Inl e \<Rightarrow> Inl e | Inr s \<Rightarrow> Inr (string_to_number E s))"

text \<open>
  \<open>new Date(v).getTime()\<close>, \<open>None\<close> for the \<open>NaN\<close> of an invalid date. A string is
  parsed, and so is the string of an object or an array; any other value is taken as a
  number of milliseconds, cut to an integer and to the range of time values.
\<close>

fun time_clip :: "jsnum \<Rightarrow> int option" where
  "time_clip (Fin q) =
     (if \<bar>q\<bar> \<le> 8640000000000000 then Some (if 0 \<le> q then \<lfloor>q\<rfloor> else \<lceil>q\<rceil>) else None)"
| "time_clip n = None"

fun date_value :: "env \<Rightarrow> jsval \<Rightarrow> js_error + int option" where
  "date_value E (JStr s) = Inr (date_parse E s)"
| "date_value E (JArr xs) =
     (case to_string E (JArr xs) of Inl e \<Rightarrow> Inl e | Inr s \<Rightarrow> Inr (date_parse E s))"
| "date_value E (JObj fs) =
     (case to_string E (JObj fs) of Inl e \<Rightarrow> Inl e | Inr s \<Rightarrow> Inr (date_parse E s))"
| "date_value E v =
     (case to_number E v of Inl e \<Rightarrow> Inl e | Inr n \<Rightarrow> Inr (time_clip n))"

text \<open>
  \<open>parseInt(string)\<close> with no radix: leading white space is skipped, then an optional
  sign, then an optional \<open>0x\<close>/\<open>0X\<close> that switches to radix 16; the longest run of
  digits of the radix that follows is the value, and \<open>NaN\<close> when that run is empty.
  Of the white space characters, those with a code below 256 are modelled.
\<close>

definition is_space :: "char \<Rightarrow> bool" where
  "is_space c = (of_char c \<in> {9, 10, 11, 12, 13, 32, 160 :: nat})"

fun strip_sign :: "string \<Rightarrow> bool \<times> string" where
  "strip_sign [] = (False, [])"
| "strip_sign (c # cs) =
     (if c = CHR ''-'' then (True, cs) else if c = CHR ''+'' then (False, cs) else (False, c # cs))"

fun strip_prefix :: "string \<Rightarrow> nat \<times> string" where
  "strip_prefix (c # d # cs) =
     (if c = CHR ''0'' \<and> (d = CHR ''x'' \<or> d = CHR ''X'') then (16, cs) else (10, c # d # cs))"
| "strip_prefix cs = (10, cs)"

definition digit_value :: "char \<Rightarrow> nat option" where
  "digit_value c =
     (let n = (of_char c :: nat) in
      if 48 \<le> n \<and> n \<le> 57 then Some (n - 48)
      else if 97 \<le> n \<and> n \<le> 122 then Some (n - 87)
      else if 65 \<le> n \<and> n \<le> 90 then Some (n - 55)
      else None)"

definition digit_of :: "nat \<Rightarrow> char \<Rightarrow> nat option" where
  "digit_of r c = (case digit_value c of None \<Rightarrow> None | Some d \<Rightarrow> if d < r then Some d else None)"

definition radix_digit :: "nat \<Rightarrow> char \<Rightarrow> bool" where
  "radix_digit r c = (digit_of r c \<noteq> None)"

fun radix_value :: "nat \<Rightarrow> nat \<Rightarrow> string \<Rightarrow> nat option" where
  "radix_value r acc [] = Some acc"
| "radix_value r acc (c # cs) =
     (case digit_of r c of None \<Rightarrow> None | Some d \<Rightarrow> radix_value r (acc * r + d) cs)"

definition parse_int_string :: "string \<Rightarrow> jsnum" where
  "parse_int_string s =
     (case strip_sign (dropWhile is_space s) of
        (negative, s1) \<Rightarrow>
          (case strip_prefix s1 of
             (r, s2) \<Rightarrow>
               (let z = takeWhile (radix_digit r) s2 in
                if z = [] then NaN
                else
                  (case radix_value r 0 z of
                     None \<Rightarrow> NaN
                   | Some n \<Rightarrow> Fin (if negative then - of_nat n else of_nat n)))))"

definition parseInt :: "env \<Rightarrow> jsval \<Rightarrow> js_error + jsnum" where
  "parseInt E v =
     (case to_string E v of Inl e \<Rightarrow> Inl e | Inr s \<Rightarrow> Inr (parse_int_string s))"

text \<open>\<open>Math.max(...xs)\<close>: \<open>-Infinity\<close> for no argument, \<open>NaN\<close> when an argument is.\<close>

definition max2 :: "jsnum \<Rightarrow> jsnum \<Rightarrow> jsnum" where
  "max2 a b = (if a = NaN \<or> b = NaN then NaN else if js_ge a b then a else b)"

definition math_max :: "jsnum list \<Rightarrow> jsnum" where
  "math_max xs = foldl max2 NInf xs"

section \<open>Files\<close>

text \<open>
  A file is what \<open>readJsonFile\<close> makes of it (the parsed value, or the message of the
  error thrown by \<open>fs.readFile\<close> or \<open>JSON.parse\<close>) and whether \<open>fs.writeFile\<close> on it
  fails. What a failed write leaves on disk is not modelled: the content is kept.
\<close>

record json_file =
  content :: "string + jsval"
  write_fault :: "string option"

record store =
  books_json :: json_file
  reviews_json :: json_file

datatype filename = Books | Reviews

definition file_of :: "store \<Rightarrow> filename \<Rightarrow> json_file" where
  "file_of st f = (case f of Books \<Rightarrow> books_json st | Reviews \<Rightarrow> reviews_json st)"

definition readJsonFile :: "store \<Rightarrow> filename \<Rightarrow> js_error + jsval" where
  "readJsonFile st f =
     (case content (file_of st f) of Inl msg \<Rightarrow> Inl (IOError msg) | Inr v \<Rightarrow> Inr v)"

definition put_content :: "store \<Rightarrow> filename \<Rightarrow> jsval \<Rightarrow> store" where
  "put_content st f v =
     (case f of
        Books \<Rightarrow> st\<lparr>books_json := (books_json st)\<lparr>content := Inr v\<rparr>\<rparr>
      | Reviews \<Rightarrow> st\<lparr>reviews_json := (reviews_json st)\<lparr>content := Inr v\<rparr>\<rparr>)"

definition writeJsonFile :: "store \<Rightarrow> filename \<Rightarrow> jsval \<Rightarrow> js_error + store" where
  "writeJsonFile st f v =
     (case write_fault (file_of st f) of
        Some msg \<Rightarrow> Inl (IOError msg)
      | None \<Rightarrow> Inr (put_content st f v))"

section \<open>Requests and responses\<close>

text \<open>
  A query parameter is a string, or the list of its values when the URL repeats it: this
  is what the query parser of Express 5 (the \<open>simple\<close> parser, its default) puts in
  \<open>req.query\<close>.
\<close>

datatype qvalue = QString string | QList "string list"

fun js_of :: "qvalue \<Rightarrow> jsval" where
  "js_of (QString s) = JStr s"
| "js_of (QList ss) = JArr (map JStr ss)"

text \<open>
  What \<open>express.json()\<close>, mounted ahead of every route, makes of the request body:
  \<open>Accepted v\<close> when it hands the request on with \<open>req.body = v\<close> (\<open>undefined\<close> when
  there was nothing to parse), \<open>Refused s\<close> when it raises an error of status \<open>s\<close>
  (400 for a body that is not JSON), which Express answers without calling any route.
\<close>

datatype payload = Accepted jsval | Refused nat

text \<open>
  \<open>api_key\<close> is \<open>req.get("X-API-Key")\<close> (\<open>None\<close> for \<open>undefined\<close>), \<open>query\<close> is
  \<open>req.query\<close> and \<open>params\<close> is \<open>req.params\<close>.
\<close>

record request =
  api_key :: "string option"
  query :: "(string \<times> qvalue) list"
  params :: "(string \<times> string) list"
  payload :: payload

fun query_value :: "(string \<times> qvalue) list \<Rightarrow> string \<Rightarrow> jsval" where
  "query_value [] k = JUndefined"
| "query_value ((k', v) # qs) k = (if k' = k then js_of v else query_value qs k)"

text \<open>
  \<open>Response s b\<close> is \<open>res.status(s).json(b)\<close>. \<open>Failure label e\<close> is the response of a
  \<open>catch\<close> block: status 500 with \<open>{success: false, error: label, message: e.message}\<close>.
  \<open>Refusal s\<close> is the answer of Express to an error of status \<open>s\<close> raised by the body
  parser.
\<close>

datatype response = Response nat jsval | Failure string js_error | Refusal nat

fun status :: "response \<Rightarrow> nat" where
  "status (Response s b) = s"
| "status (Failure l e) = 500"
| "status (Refusal s) = s"

fun param :: "(string \<times> string) list \<Rightarrow> string \<Rightarrow> string" where
  "param [] k = []"
| "param ((k', v) # ps) k = (if k' = k then v else param ps k)"

definition count_of :: "'a list \<Rightarrow> jsval" where
  "count_of xs = JNum (Fin (of_nat (length xs)))"

definition error_body :: "string \<Rightarrow> string \<Rightarrow> jsval" where
  "error_body err msg =
     JObj [(''success'', JBool False), (''error'', JStr err), (''message'', JStr msg)]"

section \<open>Middleware\<close>

text \<open>\<open>app.use(express.json())\<close>: the routes below it run on an accepted body only.\<close>

definition express_json ::
  "request \<Rightarrow> store \<Rightarrow> (jsval \<Rightarrow> response \<times> store) \<Rightarrow> response \<times> store" where
  "express_json req st next_handler =
     (case payload req of
        Refused s \<Rightarrow> (Refusal s, st)
      | Accepted v \<Rightarrow> next_handler v)"

definition VALID_API_KEYS :: "string list" where
  "VALID_API_KEYS = [''amana-secret-key-12345'']"

definition key_ok :: "request \<Rightarrow> bool" where
  "key_ok req =
     (case api_key req of
        None \<Rightarrow> False
      | Some k \<Rightarrow> k \<noteq> [] \<and> k \<in> set VALID_API_KEYS)"

definition unauthorized :: response where
  "unauthorized =
     Response 401 (error_body ''Unauthorized'' ''A valid X-API-Key header is required.'')"

text \<open>
  \<open>authenticateKey(req, res, next)\<close>: \<open>next\<close> is the route handler, run only when the key
  is a member of \<open>VALID_API_KEYS\<close>.
\<close>

definition authenticateKey ::
  "request \<Rightarrow> store \<Rightarrow> (store \<Rightarrow> response \<times> store) \<Rightarrow> response \<times> store" where
  "authenticateKey req st next_handler =
     (if key_ok req then next_handler st else (unauthorized, st))"

text \<open>
  The GET handlers below are modelled from the point at which the router calls them: a
  GET request carries no body for \<open>express.json()\<close> to refuse.
\<close>

section \<open>GET /api/books/date-range\<close>

text \<open>
  The callback of \<open>filter\<close>: \<open>bookDate >= startDate && bookDate <= endDate\<close>, after
  \<open>new Date(book.datePublished)\<close>, which throws for a value without a primitive form.
\<close>

definition in_range :: "env \<Rightarrow> int \<Rightarrow> int \<Rightarrow> jsval \<Rightarrow> js_error + bool" where
  "in_range E s e book =
     (case read_prop book ''datePublished'' of
        Inl err \<Rightarrow> Inl err
      | Inr d \<Rightarrow>
          (case date_value E d of
             Inl err \<Rightarrow> Inl err
           | Inr None \<Rightarrow> Inr False
           | Inr (Some t) \<Rightarrow> Inr (s \<le> t \<and> t \<le> e)))"

text \<open>\<open>Array.prototype.filter\<close> with a callback that may throw.\<close>

fun js_filter :: "('a \<Rightarrow> js_error + bool) \<Rightarrow> 'a list \<Rightarrow> js_error + 'a list" where
  "js_filter p [] = Inr []"
| "js_filter p (x # xs) =
     (case p x of
        Inl e \<Rightarrow> Inl e
      | Inr keep \<Rightarrow>
          (case js_filter p xs of
             Inl e \<Rightarrow> Inl e
           | Inr ys \<Rightarrow> Inr (if keep then x # ys else ys)))"

definition date_range_books :: "env \<Rightarrow> int \<Rightarrow> int \<Rightarrow> store \<Rightarrow> js_error + jsval list" where
  "date_range_books E s e st =
     (case readJsonFile st Books of
        Inl err \<Rightarrow> Inl err
      | Inr booksData \<Rightarrow>
          (case collection booksData ''books'' of
             Inl err \<Rightarrow> Inl err
           | Inr books \<Rightarrow> js_filter (in_range E s e) books))"

text \<open>\<open>new Date(start)\<close> and \<open>new Date(end)\<close>, in this order.\<close>

definition range_dates :: "env \<Rightarrow> jsval \<Rightarrow> jsval \<Rightarrow> js_error + int option \<times> int option" where
  "range_dates E start finish =
     (case date_value E start of
        Inl err \<Rightarrow> Inl err
      | Inr startDate \<Rightarrow>
          (case date_value E finish of
             Inl err \<Rightarrow> Inl err
           | Inr endDate \<Rightarrow> Inr (startDate, endDate)))"

definition get_books_date_range :: "env \<Rightarrow> request \<Rightarrow> store \<Rightarrow> response \<times> store" where
  "get_books_date_range E req st =
     (let start = query_value (query req) ''start''; finish = query_value (query req) ''end'' in
      if falsy start \<or> falsy finish then
        (Response 400 (error_body ''Missing required parameters''
           ''Please provide both start and end dates in format: YYYY-MM-DD''), st)
      else
        (case range_dates E start finish of
           Inl err \<Rightarrow> (Failure ''Failed to retrieve books by date range'' err, st)
         | Inr (Some s, Some e) \<Rightarrow>
             if s > e then
               (Response 400 (error_body ''Invalid date range''
                  ''Start date must be before or equal to end date''), st)
             else
               (case date_range_books E s e st of
                  Inl err \<Rightarrow> (Failure ''Failed to retrieve books by date range'' err, st)
                | Inr filteredBooks \<Rightarrow>
                    (Response 200 (JObj
                       [(''success'', JBool True),
                        (''count'', count_of filteredBooks),
                        (''dateRange'', JObj [(''start'', start), (''end'', finish)]),
                        (''data'', JArr filteredBooks)]), st))
         | Inr _ \<Rightarrow>
             (Response 400 (error_body ''Invalid date format''
                ''Please use YYYY-MM-DD format for dates''), st)))"

section \<open>\<open>Array.prototype.sort\<close>\<close>

text \<open>
  The sort calls the comparator on pairs of elements and reads the sign of the result,
  \<open>NaN\<close> counting as \<open>0\<close>. A negative sign puts the first argument before the second.
\<close>

fun sign_of :: "jsnum \<Rightarrow> int" where
  "sign_of NaN = 0"
| "sign_of PInf = 1"
| "sign_of NInf = - 1"
| "sign_of (Fin q) = (if q < 0 then - 1 else if q = 0 then 0 else 1)"

text \<open>
  A consistent comparator for the elements of an array, as the language defines it: being
  equal under the comparator is reflexive, symmetric and transitive, and so are being
  before and being after transitive.
\<close>

definition consistent :: "('a \<Rightarrow> 'a \<Rightarrow> jsnum) \<Rightarrow> 'a list \<Rightarrow> bool" where
  "consistent cmp xs =
     (\<forall>a \<in> set xs. \<forall>b \<in> set xs. \<forall>c \<in> set xs.
        sign_of (cmp a a) = 0
      \<and> (sign_of (cmp a b) = 0 \<longrightarrow> sign_of (cmp b a) = 0)
      \<and> (sign_of (cmp a b) = 0 \<and> sign_of (cmp b c) = 0 \<longrightarrow> sign_of (cmp a c) = 0)
      \<and> (sign_of (cmp a b) < 0 \<and> sign_of (cmp b c) < 0 \<longrightarrow> sign_of (cmp a c) < 0)
      \<and> (sign_of (cmp a b) > 0 \<and> sign_of (cmp b c) > 0 \<longrightarrow> sign_of (cmp a c) > 0))"

text \<open>
  With a consistent comparator the sort is stable and its result is determined: the
  elements in comparator order, equal ones in their order in the array. This is the
  result of inserting each element, from the last to the first, ahead of the sorted
  rest and behind the elements that come before it.
\<close>

fun sort_insert :: "('a \<Rightarrow> 'a \<Rightarrow> jsnum) \<Rightarrow> 'a \<Rightarrow> 'a list \<Rightarrow> 'a list" where
  "sort_insert cmp x [] = [x]"
| "sort_insert cmp x (y # ys) =
     (if sign_of (cmp x y) > 0 then y # sort_insert cmp x ys else x # y # ys)"

fun stable_sort :: "('a \<Rightarrow> 'a \<Rightarrow> jsnum) \<Rightarrow> 'a list \<Rightarrow> 'a list" where
  "stable_sort cmp [] = []"
| "stable_sort cmp (x # xs) = sort_insert cmp x (stable_sort cmp xs)"

text \<open>
  \<open>xs.sort(cmp)\<close>. With a comparator that is not consistent on \<open>xs\<close> the order is the
  implementation's; whatever it is, the result holds the elements of \<open>xs\<close>, each once.
\<close>

definition rearranged :: "nat list \<Rightarrow> 'a list \<Rightarrow> 'a list" where
  "rearranged ps xs = (if sort ps = [0..<length xs] then map (\<lambda>i. xs ! i) ps else xs)"

definition js_sort :: "env \<Rightarrow> (jsval \<Rightarrow> jsval \<Rightarrow> jsnum) \<Rightarrow> jsval list \<Rightarrow> jsval list" where
  "js_sort E cmp xs =
     (if consistent cmp xs then stable_sort cmp xs
      else rearranged (sort_inconsistent E cmp xs) xs)"

section \<open>GET /api/books/top-rated\<close>

text \<open>
  The own enumerable properties an object spread \<open>{...v}\<close> copies: the fields of an
  object, the elements of an array and the characters of a string under their indices,
  nothing for the other values (\<open>null\<close> and \<open>undefined\<close> included).
\<close>

fun indexed :: "nat \<Rightarrow> jsval list \<Rightarrow> (string \<times> jsval) list" where
  "indexed i [] = []"
| "indexed i (x # xs) = (digits i, x) # indexed (Suc i) xs"

fun own_props :: "jsval \<Rightarrow> (string \<times> jsval) list" where
  "own_props (JObj fs) = fs"
| "own_props (JArr xs) = indexed 0 xs"
| "own_props (JStr s) = indexed 0 (map (\<lambda>c. JStr [c]) s)"
| "own_props v = []"

text \<open>
  \<open>book.rating * book.reviewCount\<close>, for a book that is not \<open>null\<close>: both operands are
  converted to numbers, the left one first, and a conversion may throw.
\<close>

definition book_score :: "env \<Rightarrow> jsval \<Rightarrow> js_error + jsnum" where
  "book_score E book =
     (case to_number E (get_field book ''rating'') of
        Inl err \<Rightarrow> Inl err
      | Inr r \<Rightarrow>
          (case to_number E (get_field book ''reviewCount'') of
             Inl err \<Rightarrow> Inl err
           | Inr c \<Rightarrow> Inr (js_mul r c)))"

text \<open>
  The callback of \<open>map\<close>: \<open>{...book, score: book.rating * book.reviewCount}\<close>. Reading
  \<open>book.rating\<close> throws when \<open>book\<close> is \<open>null\<close>.
\<close>

definition with_score :: "env \<Rightarrow> jsval \<Rightarrow> js_error + jsval" where
  "with_score E book =
     (if nullish book then Inl TypeError
      else
        (case book_score E book of
           Inl err \<Rightarrow> Inl err
         | Inr n \<Rightarrow> Inr (JObj (set_field (own_props book) ''score'' (JNum n)))))"

fun js_map :: "('a \<Rightarrow> js_error + 'b) \<Rightarrow> 'a list \<Rightarrow> js_error + 'b list" where
  "js_map f [] = Inr []"
| "js_map f (x # xs) =
     (case f x of
        Inl e \<Rightarrow> Inl e
      | Inr y \<Rightarrow> (case js_map f xs of Inl e \<Rightarrow> Inl e | Inr ys \<Rightarrow> Inr (y # ys)))"

text \<open>
  The comparator \<open>(a, b) => b.score - a.score\<close>. It is called on entries built by
  \<open>with_score\<close>, whose \<open>score\<close> is a number, so the subtraction converts nothing.
\<close>

fun number_in :: "jsval \<Rightarrow> jsnum" where
  "number_in (JNum n) = n"
| "number_in v = NaN"

definition by_score :: "jsval \<Rightarrow> jsval \<Rightarrow> jsnum" where
  "by_score a b = js_sub (number_in (get_field b ''score'')) (number_in (get_field a ''score''))"

definition top_rated :: "env \<Rightarrow> store \<Rightarrow> js_error + jsval list" where
  "top_rated E st =
     (case readJsonFile st Books of
        Inl err \<Rightarrow> Inl err
      | Inr booksData \<Rightarrow>
          (case collection booksData ''books'' of
             Inl err \<Rightarrow> Inl err
           | Inr books \<Rightarrow>
               (case js_map (with_score E) books of
                  Inl err \<Rightarrow> Inl err
                | Inr entries \<Rightarrow> Inr (take 10 (js_sort E by_score entries)))))"

definition get_books_top_rated :: "env \<Rightarrow> request \<Rightarrow> store \<Rightarrow> response \<times> store" where
  "get_books_top_rated E req st =
     (case top_rated E st of
        Inl err \<Rightarrow> (Failure ''Failed to retrieve top rated books'' err, st)
      | Inr topRatedBooks \<Rightarrow>
          (Response 200 (JObj
             [(''success'', JBool True),
              (''count'', count_of topRatedBooks),
              (''data'', JArr topRatedBooks)]), st))"

section \<open>GET /api/books/:id\<close>

text \<open>\<open>Array.prototype.find\<close>: the first element the callback accepts; later ones are not visited.\<close>

fun js_find :: "('a \<Rightarrow> js_error + bool) \<Rightarrow> 'a list \<Rightarrow> js_error + 'a option" where
  "js_find p [] = Inr None"
| "js_find p (x # xs) =
     (case p x of
        Inl e \<Rightarrow> Inl e
      | Inr found \<Rightarrow> if found then Inr (Some x) else js_find p xs)"

text \<open>\<open>item.k === wanted\<close>, where \<open>wanted\<close> is a path parameter, a string.\<close>

definition field_is :: "string \<Rightarrow> string \<Rightarrow> jsval \<Rightarrow> js_error + bool" where
  "field_is k wanted item =
     (case read_prop item k of Inl e \<Rightarrow> Inl e | Inr v \<Rightarrow> Inr (v = JStr wanted))"

definition find_book :: "string \<Rightarrow> store \<Rightarrow> js_error + jsval option" where
  "find_book bookId st =
     (case readJsonFile st Books of
        Inl err \<Rightarrow> Inl err
      | Inr booksData \<Rightarrow>
          (case collection booksData ''books'' of
             Inl err \<Rightarrow> Inl err
           | Inr books \<Rightarrow> js_find (field_is ''id'' bookId) books))"

definition book_not_found :: "string \<Rightarrow> response" where
  "book_not_found bookId =
     Response 404 (error_body ''Book not found'' (''No book found with ID: '' @ bookId))"

definition get_book_by_id :: "request \<Rightarrow> store \<Rightarrow> response \<times> store" where
  "get_book_by_id req st =
     (let bookId = param (params req) ''id'' in
      case find_book bookId st of
        Inl err \<Rightarrow> (Failure ''Failed to retrieve book'' err, st)
      | Inr None \<Rightarrow> (book_not_found bookId, st)
      | Inr (Some book) \<Rightarrow>
          if falsy book then (book_not_found bookId, st)
          else (Response 200 (JObj [(''success'', JBool True), (''data'', book)]), st))"

section \<open>GET /api/reviews/book/:bookId\<close>

definition book_reviews :: "string \<Rightarrow> store \<Rightarrow> js_error + jsval list" where
  "book_reviews bookId st =
     (case readJsonFile st Reviews of
        Inl err \<Rightarrow> Inl err
      | Inr reviewsData \<Rightarrow>
          (case collection reviewsData ''reviews'' of
             Inl err \<Rightarrow> Inl err
           | Inr reviews \<Rightarrow> js_filter (field_is ''bookId'' bookId) reviews))"

definition get_reviews_by_book :: "request \<Rightarrow> store \<Rightarrow> response \<times> store" where
  "get_reviews_by_book req st =
     (let bookId = param (params req) ''bookId'' in
      case book_reviews bookId st of
        Inl err \<Rightarrow> (Failure ''Failed to retrieve reviews for the book'' err, st)
      | Inr bookReviews \<Rightarrow>
          if length bookReviews = 0 then
            (Response 200 (JObj
               [(''success'', JBool True),
                (''message'', JStr (''No reviews found for book with ID: '' @ bookId)),
                (''count'', JNum (Fin 0)),
                (''data'', JArr [])]), st)
          else
            (Response 200 (JObj
               [(''success'', JBool True),
                (''count'', count_of bookReviews),
                (''data'', JArr bookReviews)]), st))"

section \<open>POST /api/books\<close>

definition missing_fields :: "string \<Rightarrow> response" where
  "missing_fields msg = Response 400 (error_body ''Missing required fields'' msg)"

text \<open>The callback \<open>(b) => parseInt(b.id)\<close>.\<close>

definition id_number :: "env \<Rightarrow> jsval \<Rightarrow> js_error + jsnum" where
  "id_number E b = (case read_prop b ''id'' of Inl e \<Rightarrow> Inl e | Inr v \<Rightarrow> parseInt E v)"

text \<open>\<open>(Math.max(...books.map((b) => parseInt(b.id))) + 1).toString()\<close>.\<close>

definition next_id :: "env \<Rightarrow> jsval list \<Rightarrow> js_error + string" where
  "next_id E books =
     (case js_map (id_number E) books of
        Inl e \<Rightarrow> Inl e
      | Inr ns \<Rightarrow> Inr (number_to_string E (js_add (math_max ns) (Fin 1))))"

text \<open>\<open>v || d\<close> and \<open>v !== undefined ? v : d\<close>.\<close>

definition or_else :: "jsval \<Rightarrow> jsval \<Rightarrow> jsval" where
  "or_else v d = (if falsy v then d else v)"

definition default_to :: "jsval \<Rightarrow> jsval \<Rightarrow> jsval" where
  "default_to v d = (if v \<noteq> JUndefined then v else d)"

text \<open>
  The object literal \<open>bookToAdd\<close>: the generated \<open>id\<close> first, then the spread of the
  request body, then the five defaulted fields.
\<close>

definition bookToAdd :: "env \<Rightarrow> string \<Rightarrow> jsval \<Rightarrow> jsval" where
  "bookToAdd E new_id newBook =
     (let o1 = assign_all [(''id'', JStr new_id)] (own_props newBook);
          o2 = set_field o1 ''rating'' (or_else (get_field newBook ''rating'') (JNum (Fin 0)));
          o3 = set_field o2 ''reviewCount'' (or_else (get_field newBook ''reviewCount'') (JNum (Fin 0)));
          o4 = set_field o3 ''inStock'' (default_to (get_field newBook ''inStock'') (JBool True));
          o5 = set_field o4 ''featured'' (default_to (get_field newBook ''featured'') (JBool False));
          o6 = set_field o5 ''datePublished''
                 (or_else (get_field newBook ''datePublished'')
                    (JStr (takeWhile (\<lambda>c. c \<noteq> CHR ''T'') (now_iso E))))
      in JObj o6)"

text \<open>\<open>data.k.push(item)\<close> on an object \<open>data\<close> whose field \<open>k\<close> is the array \<open>xs\<close>.\<close>

fun pushed :: "jsval \<Rightarrow> string \<Rightarrow> jsval list \<Rightarrow> jsval \<Rightarrow> jsval" where
  "pushed (JObj fs) k xs item = JObj (set_field fs k (JArr (xs @ [item])))"
| "pushed v k xs item = v"

text \<open>The route handler, with \<open>newBook = req.body\<close>.\<close>

definition create_book :: "env \<Rightarrow> jsval \<Rightarrow> store \<Rightarrow> response \<times> store" where
  "create_book E newBook st =
     (if nullish newBook then (Failure ''Failed to add new book'' TypeError, st)
      else if falsy (get_field newBook ''title'') \<or> falsy (get_field newBook ''author'')
              \<or> falsy (get_field newBook ''price'') then
        (missing_fields ''Please provide title, author, and price for the new book.'', st)
      else
        (case readJsonFile st Books of
           Inl err \<Rightarrow> (Failure ''Failed to add new book'' err, st)
         | Inr booksData \<Rightarrow>
             (case collection booksData ''books'' of
                Inl err \<Rightarrow> (Failure ''Failed to add new book'' err, st)
              | Inr books \<Rightarrow>
                  (case next_id E books of
                     Inl err \<Rightarrow> (Failure ''Failed to add new book'' err, st)
                   | Inr new_id \<Rightarrow>
                       (let added = bookToAdd E new_id newBook in
                        case writeJsonFile st Books (pushed booksData ''books'' books added) of
                          Inl err \<Rightarrow> (Failure ''Failed to add new book'' err, st)
                        | Inr st' \<Rightarrow>
                            (Response 201 (JObj
                               [(''success'', JBool True),
                                (''message'', JStr ''Book added successfully!''),
                                (''data'', added)]), st'))))))"

text \<open>\<open>app.post("/api/books", authenticateKey, handler)\<close>, below \<open>express.json()\<close>.\<close>

definition post_books :: "env \<Rightarrow> request \<Rightarrow> store \<Rightarrow> response \<times> store" where
  "post_books E req st =
     express_json req st (\<lambda>body. authenticateKey req st (create_book E body))"

section \<open>POST /api/reviews\<close>

text \<open>
  The object literal \<open>reviewToAdd\<close>: the generated \<open>id\<close> first, then the spread of the
  request body, then \<open>timestamp\<close> and \<open>verified\<close>.
\<close>

definition reviewToAdd :: "env \<Rightarrow> jsval \<Rightarrow> jsval" where
  "reviewToAdd E newReview =
     (let o1 = assign_all [(''id'', JStr (''review-'' @ random_uuid E))] (own_props newReview);
          o2 = set_field o1 ''timestamp'' (JStr (now_iso E));
          o3 = set_field o2 ''verified'' (default_to (get_field newReview ''verified'') (JBool False))
      in JObj o3)"

text \<open>The route handler, with \<open>newReview = req.body\<close>.\<close>

definition create_review :: "env \<Rightarrow> jsval \<Rightarrow> store \<Rightarrow> response \<times> store" where
  "create_review E newReview st =
     (if nullish newReview then (Failure ''Failed to add review'' TypeError, st)
      else if falsy (get_field newReview ''bookId'') \<or> falsy (get_field newReview ''author'')
              \<or> falsy (get_field newReview ''rating'') \<or> falsy (get_field newReview ''comment'') then
        (missing_fields ''Please provide bookId, author, rating, and comment.'', st)
      else
        (case readJsonFile st Reviews of
           Inl err \<Rightarrow> (Failure ''Failed to add review'' err, st)
         | Inr reviewsData \<Rightarrow>
             (let added = reviewToAdd E newReview in
              case collection reviewsData ''reviews'' of
                Inl err \<Rightarrow> (Failure ''Failed to add review'' err, st)
              | Inr reviews \<Rightarrow>
                  (case writeJsonFile st Reviews (pushed reviewsData ''reviews'' reviews added) of
                     Inl err \<Rightarrow> (Failure ''Failed to add review'' err, st)
                   | Inr st' \<Rightarrow>
                       (Response 201 (JObj
                          [(''success'', JBool True),
                           (''message'', JStr ''Review added successfully!''),
                           (''data'', added)]), st')))))"

text \<open>\<open>app.post("/api/reviews", authenticateKey, handler)\<close>, below \<open>express.json()\<close>.\<close>

definition post_reviews :: "env \<Rightarrow> request \<Rightarrow> store \<Rightarrow> response \<times> store" where
  "post_reviews E req st =
     express_json req st (\<lambda>body. authenticateKey req st (create_review E body))"

section \<open>Properties, as the specification words them\<close>

text \<open>
  A book whose \<open>datePublished\<close> is a date within \<open>[s, e]\<close>, both ends included, and a
  book whose \<open>datePublished\<close> has a date value at all, valid or not.
\<close>

definition published_within :: "env \<Rightarrow> int \<Rightarrow> int \<Rightarrow> jsval \<Rightarrow> bool" where
  "published_within E s e book =
     (case date_value E (get_field book ''datePublished'') of
        Inr (Some t) \<Rightarrow> s \<le> t \<and> t \<le> e
      | _ \<Rightarrow> False)"

definition dated :: "env \<Rightarrow> jsval \<Rightarrow> bool" where
  "dated E book =
     (case date_value E (get_field book ''datePublished'') of Inl err \<Rightarrow> False | Inr d \<Rightarrow> True)"

text \<open>
  The product \<open>rating * reviewCount\<close> of a record, \<open>None\<close> when one of the two has no
  number, and a list of records in descending order of that product.
\<close>

definition rating_times_reviews :: "env \<Rightarrow> jsval \<Rightarrow> jsnum option" where
  "rating_times_reviews E r =
     (case (to_number E (get_field r ''rating''), to_number E (get_field r ''reviewCount'')) of
        (Inr x, Inr y) \<Rightarrow> Some (js_mul x y)
      | _ \<Rightarrow> None)"

definition product_ge :: "env \<Rightarrow> jsval \<Rightarrow> jsval \<Rightarrow> bool" where
  "product_ge E a b =
     (case (rating_times_reviews E a, rating_times_reviews E b) of
        (Some x, Some y) \<Rightarrow> js_ge x y
      | _ \<Rightarrow> False)"

definition descending_products :: "env \<Rightarrow> jsval list \<Rightarrow> bool" where
  "descending_products E es = sorted_wrt (product_ge E) es"

text \<open>The \<open>score\<close> an entry carries, and entries in descending order of it.\<close>

definition score_in :: "jsval \<Rightarrow> jsnum" where
  "score_in e = number_in (get_field e ''score'')"

definition descending_scores :: "jsval list \<Rightarrow> bool" where
  "descending_scores es = sorted_wrt (\<lambda>a b. js_ge (score_in a) (score_in b)) es"

text \<open>What \<open>with_score\<close> builds from a book with the product \<open>n\<close>.\<close>

definition entry :: "jsval \<Rightarrow> jsnum \<Rightarrow> jsval" where
  "entry b n = JObj (set_field (own_props b) ''score'' (JNum n))"

text \<open>
  A book with a numeric id: \<open>parseInt(b.id)\<close> is the integer \<open>n\<close>, within the range in
  which doubles are exact integers.
\<close>

definition numbered :: "env \<Rightarrow> jsval \<Rightarrow> int \<Rightarrow> bool" where
  "numbered E b n =
     (\<not> nullish b \<and> parseInt E (get_field b ''id'') = Inr (Fin (of_int n)) \<and> \<bar>n\<bar> < 2 ^ 53)"

definition is_decimal :: "char \<Rightarrow> bool" where
  "is_decimal c = (c \<in> set ''0123456789'')"

section \<open>Example data\<close>

text \<open>
  How Node's engine sorts an array of fewer than 64 elements, whatever the comparator:
  it takes the run at the start of the array, turned round when it descends, and puts
  each further element into it at the place a binary search finds. Here the sort is run
  on the positions of the elements.
\<close>

definition before :: "('a \<Rightarrow> 'a \<Rightarrow> jsnum) \<Rightarrow> 'a \<Rightarrow> 'a \<Rightarrow> bool" where
  "before cmp x y = (sign_of (cmp x y) < 0)"

fun run_rest :: "('a \<Rightarrow> 'a \<Rightarrow> jsnum) \<Rightarrow> bool \<Rightarrow> 'a \<Rightarrow> 'a list \<Rightarrow> nat" where
  "run_rest cmp descending previous [] = 0"
| "run_rest cmp descending previous (x # xs) =
     (if descending = before cmp x previous then Suc (run_rest cmp descending x xs) else 0)"

fun first_run :: "('a \<Rightarrow> 'a \<Rightarrow> jsnum) \<Rightarrow> 'a list \<Rightarrow> 'a list \<times> 'a list" where
  "first_run cmp (x # y # zs) =
     (let descending = before cmp y x;
          n = Suc (Suc (run_rest cmp descending y zs));
          run = take n (x # y # zs)
      in (if descending then rev run else run, drop n (x # y # zs)))"
| "first_run cmp xs = (xs, [])"

function insertion_point :: "('a \<Rightarrow> 'a \<Rightarrow> jsnum) \<Rightarrow> 'a \<Rightarrow> 'a list \<Rightarrow> nat \<Rightarrow> nat \<Rightarrow> nat" where
  "insertion_point cmp pivot run left right =
     (if left < right then
        (let mid = left + (right - left) div 2 in
         if before cmp pivot (run ! mid) then insertion_point cmp pivot run left mid
         else insertion_point cmp pivot run (Suc mid) right)
      else left)"
  by pat_completeness auto
termination
  by (relation "measure (\<lambda>(cmp, pivot, run, left, right). right - left)") auto

declare insertion_point.simps [simp del]

definition binary_insert :: "('a \<Rightarrow> 'a \<Rightarrow> jsnum) \<Rightarrow> 'a list \<Rightarrow> 'a \<Rightarrow> 'a list" where
  "binary_insert cmp run pivot =
     (let p = insertion_point cmp pivot run 0 (length run) in take p run @ pivot # drop p run)"

definition short_sort :: "('a \<Rightarrow> 'a \<Rightarrow> jsnum) \<Rightarrow> 'a list \<Rightarrow> 'a list" where
  "short_sort cmp xs = (case first_run cmp xs of (run, rest) \<Rightarrow> foldl (binary_insert cmp) run rest)"

definition short_sort_order :: "('a \<Rightarrow> 'a \<Rightarrow> jsnum) \<Rightarrow> 'a list \<Rightarrow> nat list" where
  "short_sort_order cmp xs = short_sort (\<lambda>i j. cmp (xs ! i) (xs ! j)) [0..<length xs]"

text \<open>
  An environment for the examples below. Its \<open>date_parse\<close> knows the dates the examples
  use, with their time values in milliseconds since the epoch (UTC midnight); no example
  turns a string into a number or prints a fraction.
\<close>

definition sample_dates :: "(string \<times> int) list" where
  "sample_dates =
     [(''2020-01-01'', 1577836800000),
      (''2020-06-15'', 1592179200000),
      (''2020-12-31'', 1609372800000),
      (''2021-03-01'', 1614556800000)]"

definition sample_env :: env where
  "sample_env =
     \<lparr> date_parse = map_of sample_dates,
       string_to_number = (\<lambda>s. NaN),
       fraction_to_string = (\<lambda>q. ''0.5''),
       sort_inconsistent = short_sort_order,
       random_uuid = ''7c9e6679-7425-40de-944b-e07fc1f90ae7'',
       now_iso = ''2024-05-01T12:00:00.000Z'' \<rparr>"

definition book_one :: jsval where
  "book_one =
     JObj [(''id'', JStr ''1''), (''title'', JStr ''Alpha''), (''author'', JStr ''Ann''),
           (''price'', JNum (Fin 10)), (''rating'', JNum (Fin (9 / 2))),
           (''reviewCount'', JNum (Fin 10)), (''datePublished'', JStr ''2020-06-15'')]"

definition book_two :: jsval where
  "book_two =
     JObj [(''id'', JStr ''2''), (''title'', JStr ''Beta''), (''author'', JStr ''Bob''),
           (''price'', JNum (Fin 12)), (''rating'', JNum (Fin 5)),
           (''reviewCount'', JNum (Fin 20)), (''datePublished'', JStr ''2021-03-01'')]"

definition review_one :: jsval where
  "review_one =
     JObj [(''id'', JStr ''review-1''), (''bookId'', JStr ''1''), (''author'', JStr ''Cy''),
           (''rating'', JNum (Fin 5)), (''comment'', JStr ''Good''),
           (''timestamp'', JStr ''2023-01-01T00:00:00.000Z''), (''verified'', JBool True)]"

definition store_with :: "jsval list \<Rightarrow> jsval list \<Rightarrow> store" where
  "store_with books reviews =
     \<lparr> books_json = \<lparr> content = Inr (JObj [(''books'', JArr books)]), write_fault = None \<rparr>,
       reviews_json = \<lparr> content = Inr (JObj [(''reviews'', JArr reviews)]), write_fault = None \<rparr> \<rparr>"

definition sample_store :: store where
  "sample_store = store_with [book_one, book_two] [review_one]"

definition the_key :: "string option" where
  "the_key = Some ''amana-secret-key-12345''"

definition get_request :: "(string \<times> qvalue) list \<Rightarrow> (string \<times> string) list \<Rightarrow> request" where
  "get_request q ps = \<lparr> api_key = None, query = q, params = ps, payload = Accepted JUndefined \<rparr>"

definition post_request :: "string option \<Rightarrow> jsval \<Rightarrow> request" where
  "post_request k b = \<lparr> api_key = k, query = [], params = [], payload = Accepted b \<rparr>"

text \<open>A POST without a key whose body is not JSON.\<close>

definition broken_post :: request where
  "broken_post = \<lparr> api_key = None, query = [], params = [], payload = Refused 400 \<rparr>"

definition year_2020 :: request where
  "year_2020 = get_request [(''start'', QString ''2020-01-01''), (''end'', QString ''2020-12-31'')] []"

text \<open>
  A book as POST /api/books stores it for a body whose \<open>datePublished\<close> is the object
  \<open>{"toString": 1}\<close>.
\<close>

definition undated_book :: jsval where
  "undated_book =
     JObj [(''id'', JStr ''3''), (''title'', JStr ''Gamma''), (''author'', JStr ''Di''),
           (''price'', JNum (Fin 3)), (''rating'', JNum (Fin 0)), (''reviewCount'', JNum (Fin 0)),
           (''inStock'', JBool True), (''featured'', JBool False),
           (''datePublished'', JObj [(''toString'', JNum (Fin 1))])]"

text \<open>A collection in which the second book has neither \<open>rating\<close> nor \<open>reviewCount\<close>.\<close>

definition low_book :: jsval where
  "low_book = JObj [(''id'', JStr ''1''), (''rating'', JNum (Fin 1)), (''reviewCount'', JNum (Fin 1))]"

definition unrated_book :: jsval where
  "unrated_book = JObj [(''id'', JStr ''2'')]"

definition high_book :: jsval where
  "high_book = JObj [(''id'', JStr ''3''), (''rating'', JNum (Fin 5)), (''reviewCount'', JNum (Fin 5))]"

definition no_request :: request where
  "no_request = get_request [] []"

text \<open>A collection in which the second book has an id that is not a numeral.\<close>

definition odd_id_books :: "jsval list" where
  "odd_id_books = [JObj [(''id'', JStr ''1'')], JObj [(''id'', JStr ''abc'')]]"

definition new_book :: jsval where
  "new_book = JObj [(''title'', JStr ''Gamma''), (''author'', JStr ''Di''), (''price'', JNum (Fin 3))]"

text \<open>A review whose body brings an \<open>id\<close> of its own, that of a stored review.\<close>

definition review_with_id :: jsval where
  "review_with_id =
     JObj [(''bookId'', JStr ''999''), (''author'', JStr ''Di''), (''rating'', JNum (Fin 3)),
           (''comment'', JStr ''Fine''), (''id'', JStr ''review-1'')]"

section \<open>Array callbacks that do not throw\<close>

lemma js_filter_total:
  "\<forall>x \<in> set xs. p x = Inr (q x) \<Longrightarrow> js_filter p xs = Inr (filter q xs)"
  by (induction xs) auto

lemma js_find_total:
  "\<forall>x \<in> set xs. p x = Inr (q x) \<Longrightarrow> js_find p xs = Inr (find q xs)"
  by (induction xs) auto

lemma js_map_total:
  "\<forall>x \<in> set xs. f x = Inr (g x) \<Longrightarrow> js_map f xs = Inr (map g xs)"
  by (induction xs) auto


lemma field_is_total:
  "\<not> nullish x \<Longrightarrow> field_is k w x = Inr (get_field x k = JStr w)"
  by (simp add: field_is_def read_prop_def)

lemma has_field_truthy: "get_field b k = JStr w \<Longrightarrow> \<not> falsy b"
  by (cases b) auto

lemma readJsonFile_store_with:
  "readJsonFile (store_with bs rs) Books = Inr (JObj [(''books'', JArr bs)])"
  "readJsonFile (store_with bs rs) Reviews = Inr (JObj [(''reviews'', JArr rs)])"
  by (simp_all add: readJsonFile_def store_with_def file_of_def)

lemma collection_field: "collection (JObj [(k, JArr xs)]) k = Inr xs"
  by (simp add: collection_def read_prop_def)

section \<open>Date range\<close>

text \<open>A query parameter always has a date value: a string, or a list of strings, has a string.\<close>

lemma join_strings_total: "\<exists>s. join_strings E (map JStr ss) = Inr s"
proof (induction ss)
  case Nil
  then show ?case by simp
next
  case (Cons a ss)
  then show ?case by (cases "ss = []") auto
qed

lemma date_value_query: "\<exists>d. date_value E (query_value qs k) = Inr d"
proof (induction qs)
  case Nil
  then show ?case by simp
next
  case (Cons p qs)
  obtain k' v where p: "p = (k', v)" by (cases p)
  have "\<exists>d. date_value E (js_of v) = Inr d"
  proof (cases v)
    case (QString s)
    then show ?thesis by simp
  next
    case (QList ss)
    then show ?thesis
      using join_strings_total [of E ss] by auto
  qed
  with Cons p show ?case by simp
qed

lemma in_range_published:
  "\<not> nullish b \<Longrightarrow> dated E b \<Longrightarrow> in_range E s e b = Inr (published_within E s e b)"
  by (auto simp: in_range_def read_prop_def published_within_def dated_def
      split: sum.splits option.splits)

text \<open>
  C1, as amended. When \<open>start\<close> and \<open>end\<close> are both given and parse as dates
  \<open>s \<le> e\<close>, and the books file holds an array of books each of whose \<open>datePublished\<close>
  has a date value (valid or not: the conversion does not throw), GET
  /api/books/date-range answers 200 with exactly the books whose \<open>datePublished\<close> is a
  date in \<open>[s, e]\<close>, in file order, and with their count.
\<close>

theorem date_range_exact:
  assumes "\<not> falsy (query_value (query req) ''start'')"
    and "\<not> falsy (query_value (query req) ''end'')"
    and "date_value E (query_value (query req) ''start'') = Inr (Some s)"
    and "date_value E (query_value (query req) ''end'') = Inr (Some e)"
    and "s \<le> e"
    and "readJsonFile st Books = Inr booksData"
    and "collection booksData ''books'' = Inr books"
    and "\<forall>b \<in> set books. \<not> nullish b \<and> dated E b"
  shows "get_books_date_range E req st =
           (Response 200 (JObj
              [(''success'', JBool True),
               (''count'', count_of (filter (published_within E s e) books)),
               (''dateRange'', JObj [(''start'', query_value (query req) ''start''),
                                     (''end'', query_value (query req) ''end'')]),
               (''data'', JArr (filter (published_within E s e) books))]), st)"
proof -
  have "js_filter (in_range E s e) books = Inr (filter (published_within E s e) books)"
    using assms(8) by (intro js_filter_total) (simp add: in_range_published)
  then have "date_range_books E s e st = Inr (filter (published_within E s e) books)"
    using assms(6,7) by (simp add: date_range_books_def)
  then show ?thesis
    using assms(1-5) by (simp add: get_books_date_range_def range_dates_def Let_def)
qed

lemma year_2020_query:
  "query_value (query year_2020) ''start'' = JStr ''2020-01-01''"
  "query_value (query year_2020) ''end'' = JStr ''2020-12-31''"
  by (simp_all add: year_2020_def get_request_def)

lemma year_2020_dates:
  "date_parse sample_env ''2020-01-01'' = Some 1577836800000"
  "date_parse sample_env ''2020-12-31'' = Some 1609372800000"
  by (simp_all add: sample_env_def sample_dates_def)

lemma sample_books_file:
  "readJsonFile sample_store Books = Inr (JObj [(''books'', JArr [book_one, book_two])])"
  by (simp add: sample_store_def readJsonFile_store_with)

theorem date_range_exact_witness:
  "get_books_date_range sample_env year_2020 sample_store =
   (Response 200 (JObj
      [(''success'', JBool True),
       (''count'', JNum (Fin 1)),
       (''dateRange'', JObj [(''start'', JStr ''2020-01-01''), (''end'', JStr ''2020-12-31'')]),
       (''data'', JArr [book_one])]), sample_store)"
proof -
  have h1: "\<not> falsy (query_value (query year_2020) ''start'')"
    and h2: "\<not> falsy (query_value (query year_2020) ''end'')"
    by (simp_all add: year_2020_query)
  have h3: "date_value sample_env (query_value (query year_2020) ''start'') = Inr (Some 1577836800000)"
    and h4: "date_value sample_env (query_value (query year_2020) ''end'') = Inr (Some 1609372800000)"
    by (simp_all add: year_2020_query year_2020_dates)
  have h5: "(1577836800000 :: int) \<le> 1609372800000"
    by simp
  have h7: "collection (JObj [(''books'', JArr [book_one, book_two])]) ''books'' = Inr [book_one, book_two]"
    by (rule collection_field)
  have h8: "\<forall>b \<in> set [book_one, book_two]. \<not> nullish b \<and> dated sample_env b"
    by (simp add: book_one_def book_two_def dated_def sample_env_def)
  have f: "filter (published_within sample_env 1577836800000 1609372800000) [book_one, book_two]
             = [book_one]"
    by (simp add: published_within_def sample_env_def sample_dates_def book_one_def book_two_def)
  from date_range_exact [OF h1 h2 h3 h4 h5 sample_books_file h7 h8] show ?thesis
    unfolding f year_2020_query by (simp add: count_of_def)
qed

text \<open>
  C1 as stated fails on a collection with a book whose \<open>datePublished\<close> is an object
  with a \<open>toString\<close> field, which POST /api/books stores as it is: \<open>new Date\<close> throws
  on it and the answer to a valid range is 500, not the books of 2020.
\<close>

theorem date_range_throws_counterexample:
  "get_books_date_range sample_env year_2020 (store_with [book_one, undated_book] []) =
     (Failure ''Failed to retrieve books by date range'' TypeError,
      store_with [book_one, undated_book] [])
   \<and> status (Failure ''Failed to retrieve books by date range'' TypeError) = 500"
  by (simp add: get_books_date_range_def range_dates_def year_2020_query year_2020_dates
      date_range_books_def readJsonFile_store_with collection_field in_range_def read_prop_def
      book_one_def undated_book_def sample_env_def sample_dates_def)

text \<open>
  C6. When \<open>start\<close> or \<open>end\<close> is missing (or empty), when either does not parse as a
  date, or when \<open>start\<close> is after \<open>end\<close>, GET /api/books/date-range answers 400, whatever
  the files hold.
\<close>

theorem date_range_rejects:
  assumes "falsy (query_value (query req) ''start'') \<or> falsy (query_value (query req) ''end'')
         \<or> date_value E (query_value (query req) ''start'') = Inr None
         \<or> date_value E (query_value (query req) ''end'') = Inr None
         \<or> (\<exists>s e. date_value E (query_value (query req) ''start'') = Inr (Some s)
               \<and> date_value E (query_value (query req) ''end'') = Inr (Some e) \<and> e < s)"
  shows "status (fst (get_books_date_range E req st)) = 400
       \<and> snd (get_books_date_range E req st) = st"
proof -
  obtain ds de where "date_value E (query_value (query req) ''start'') = Inr ds"
    and "date_value E (query_value (query req) ''end'') = Inr de"
    using date_value_query by blast
  then show ?thesis
    using assms
    by (auto simp: get_books_date_range_def range_dates_def Let_def split: option.splits)
qed

theorem date_range_rejects_witness:
  "status (fst (get_books_date_range sample_env
      (get_request [(''start'', QString ''2021-03-01''), (''end'', QString ''2020-01-01'')] [])
      sample_store)) = 400
   \<and> status (fst (get_books_date_range sample_env
      (get_request [(''start'', QString ''2020-01-01'')] []) sample_store)) = 400
   \<and> status (fst (get_books_date_range sample_env
      (get_request [(''start'', QString ''soon''), (''end'', QString ''2020-01-01'')] [])
      sample_store)) = 400"
proof -
  let ?r1 = "get_request [(''start'', QString ''2021-03-01''), (''end'', QString ''2020-01-01'')] []"
  let ?r2 = "get_request [(''start'', QString ''2020-01-01'')] []"
  let ?r3 = "get_request [(''start'', QString ''soon''), (''end'', QString ''2020-01-01'')] []"
  have "\<exists>s e. date_value sample_env (query_value (query ?r1) ''start'') = Inr (Some s)
               \<and> date_value sample_env (query_value (query ?r1) ''end'') = Inr (Some e) \<and> e < s"
    by (simp add: get_request_def sample_env_def sample_dates_def)
  moreover have "falsy (query_value (query ?r2) ''end'')"
    by (simp add: get_request_def)
  moreover have "date_value sample_env (query_value (query ?r3) ''start'') = Inr None"
    by (simp add: get_request_def sample_env_def sample_dates_def)
  ultimately show ?thesis
    using date_range_rejects [of ?r1 sample_env sample_store]
      date_range_rejects [of ?r2 sample_env sample_store]
      date_range_rejects [of ?r3 sample_env sample_store]
    by blast
qed

section \<open>Authentication\<close>

lemma key_ok_the_key: "key_ok (post_request the_key b)"
  by (simp add: key_ok_def post_request_def the_key_def VALID_API_KEYS_def)

lemma payload_post_request: "payload (post_request k b) = Accepted b"
  by (simp add: post_request_def)

text \<open>
  C4, as amended. A POST to /api/books or /api/reviews whose \<open>X-API-Key\<close> header is
  absent or is not the shared secret, and whose body the JSON parser accepts, is answered
  401; whether the body is accepted or not, both files are as they were.
\<close>

theorem unauthorized_post_rejected:
  assumes "api_key req = None \<or> (\<exists>k. api_key req = Some k \<and> k \<noteq> ''amana-secret-key-12345'')"
  shows "(\<forall>v. payload req = Accepted v \<longrightarrow>
            status (fst (post_books E req st)) = 401 \<and> status (fst (post_reviews E req st)) = 401)
       \<and> snd (post_books E req st) = st \<and> snd (post_reviews E req st) = st"
proof -
  have "\<not> key_ok req"
    using assms by (auto simp: key_ok_def VALID_API_KEYS_def)
  then show ?thesis
    by (cases "payload req")
       (simp_all add: post_books_def post_reviews_def express_json_def authenticateKey_def
          unauthorized_def)
qed

theorem unauthorized_post_rejected_witness:
  "status (fst (post_books sample_env (post_request None book_one) sample_store)) = 401
   \<and> status (fst (post_reviews sample_env (post_request (Some ''guess'') review_one) sample_store)) = 401
   \<and> snd (post_books sample_env (post_request None book_one) sample_store) = sample_store
   \<and> snd (post_reviews sample_env (post_request (Some ''guess'') review_one) sample_store) = sample_store
   \<and> snd (post_books sample_env broken_post sample_store) = sample_store"
proof -
  have "api_key (post_request None book_one) = None"
    by (simp add: post_request_def)
  moreover have "\<exists>k. api_key (post_request (Some ''guess'') review_one) = Some k
                    \<and> k \<noteq> ''amana-secret-key-12345''"
    by (simp add: post_request_def)
  moreover have "api_key broken_post = None"
    by (simp add: broken_post_def)
  ultimately show ?thesis
    using unauthorized_post_rejected [of "post_request None book_one" sample_env sample_store]
      unauthorized_post_rejected [of "post_request (Some ''guess'') review_one" sample_env sample_store]
      unauthorized_post_rejected [of broken_post sample_env sample_store]
      payload_post_request
    by blast
qed

text \<open>
  C4 as stated fails on a POST without a key whose body is not JSON: \<open>express.json()\<close>
  runs ahead of \<open>authenticateKey\<close>, and the answer is the parser's 400, not 401.
\<close>

theorem unparsable_body_counterexample:
  "api_key broken_post = None
   \<and> post_books sample_env broken_post sample_store = (Refusal 400, sample_store)
   \<and> post_reviews sample_env broken_post sample_store = (Refusal 400, sample_store)
   \<and> status (Refusal 400) = 400"
  by (simp add: broken_post_def post_books_def post_reviews_def express_json_def)

section \<open>Required fields\<close>

lemma create_book_missing:
  assumes "\<not> nullish newBook"
    and "falsy (get_field newBook ''title'') \<or> falsy (get_field newBook ''author'')
         \<or> falsy (get_field newBook ''price'')"
  shows "create_book E newBook st =
           (missing_fields ''Please provide title, author, and price for the new book.'', st)"
  using assms by (auto simp: create_book_def)

lemma create_review_missing:
  assumes "\<not> nullish newReview"
    and "falsy (get_field newReview ''bookId'') \<or> falsy (get_field newReview ''author'')
         \<or> falsy (get_field newReview ''rating'') \<or> falsy (get_field newReview ''comment'')"
  shows "create_review E newReview st =
           (missing_fields ''Please provide bookId, author, rating, and comment.'', st)"
  using assms by (auto simp: create_review_def)

lemma post_books_accepted:
  "key_ok req \<Longrightarrow> payload req = Accepted v \<Longrightarrow> post_books E req st = create_book E v st"
  by (simp add: post_books_def express_json_def authenticateKey_def)

lemma post_reviews_accepted:
  "key_ok req \<Longrightarrow> payload req = Accepted v \<Longrightarrow> post_reviews E req st = create_review E v st"
  by (simp add: post_reviews_def express_json_def authenticateKey_def)

text \<open>
  C9. The required-field checks test truthiness: a request with a valid key whose body
  holds a required field with a falsy value (\<open>0\<close>, \<open>""\<close>, \<open>false\<close>, \<open>null\<close>) is rejected
  with the 400 "Missing required fields" response, exactly as when the field is absent,
  on both POST endpoints.
\<close>

theorem falsy_required_field_rejected:
  assumes "key_ok req" and "payload req = Accepted (JObj fs)" and "falsy (lookup fs k)"
  shows "(k \<in> {''title'', ''author'', ''price''} \<longrightarrow>
            post_books E req st =
              (Response 400 (error_body ''Missing required fields''
                 ''Please provide title, author, and price for the new book.''), st))
       \<and> (k \<in> {''bookId'', ''author'', ''rating'', ''comment''} \<longrightarrow>
            post_reviews E req st =
              (Response 400 (error_body ''Missing required fields''
                 ''Please provide bookId, author, rating, and comment.''), st))"
proof (rule conjI; rule impI)
  assume "k \<in> {''title'', ''author'', ''price''}"
  then have "falsy (get_field (JObj fs) ''title'') \<or> falsy (get_field (JObj fs) ''author'')
         \<or> falsy (get_field (JObj fs) ''price'')"
    using assms(3) by auto
  then show "post_books E req st =
              (Response 400 (error_body ''Missing required fields''
                 ''Please provide title, author, and price for the new book.''), st)"
    using assms(1,2) create_book_missing [of "JObj fs" E st]
    by (simp add: post_books_accepted missing_fields_def)
next
  assume "k \<in> {''bookId'', ''author'', ''rating'', ''comment''}"
  then have "falsy (get_field (JObj fs) ''bookId'') \<or> falsy (get_field (JObj fs) ''author'')
         \<or> falsy (get_field (JObj fs) ''rating'') \<or> falsy (get_field (JObj fs) ''comment'')"
    using assms(3) by auto
  then show "post_reviews E req st =
              (Response 400 (error_body ''Missing required fields''
                 ''Please provide bookId, author, rating, and comment.''), st)"
    using assms(1,2) create_review_missing [of "JObj fs" E st]
    by (simp add: post_reviews_accepted missing_fields_def)
qed

theorem falsy_required_field_rejected_witness:
  "status (fst (post_books sample_env (post_request the_key
      (JObj [(''title'', JStr ''Gamma''), (''author'', JStr ''Di''), (''price'', JNum (Fin 0))]))
      sample_store)) = 400
   \<and> status (fst (post_books sample_env (post_request the_key
      (JObj [(''title'', JStr ''''), (''author'', JStr ''Di''), (''price'', JNum (Fin 7))]))
      sample_store)) = 400
   \<and> status (fst (post_reviews sample_env (post_request the_key
      (JObj [(''bookId'', JStr ''1''), (''author'', JStr ''Di''), (''rating'', JNum (Fin 0)),
             (''comment'', JStr ''Poor'')]))
      sample_store)) = 400"
proof -
  let ?b1 = "[(''title'', JStr ''Gamma''), (''author'', JStr ''Di''), (''price'', JNum (Fin 0))]"
  let ?b2 = "[(''title'', JStr ''''), (''author'', JStr ''Di''), (''price'', JNum (Fin 7))]"
  let ?b3 = "[(''bookId'', JStr ''1''), (''author'', JStr ''Di''), (''rating'', JNum (Fin 0)),
              (''comment'', JStr ''Poor'')]"
  have b: "payload (post_request the_key (JObj fs)) = Accepted (JObj fs)" for fs
    by (simp add: post_request_def)
  have "falsy (lookup ?b1 ''price'')" and "falsy (lookup ?b2 ''title'')"
    and "falsy (lookup ?b3 ''rating'')"
    by simp_all
  then show ?thesis
    using falsy_required_field_rejected [OF key_ok_the_key b, of ?b1 "''price''" sample_env sample_store]
      falsy_required_field_rejected [OF key_ok_the_key b, of ?b2 "''title''" sample_env sample_store]
      falsy_required_field_rejected [OF key_ok_the_key b, of ?b3 "''rating''" sample_env sample_store]
    by simp
qed

section \<open>Lookup by id\<close>

text \<open>
  C7. With a books file that holds an array of books, GET /api/books/:id answers 200 with
  the first book whose \<open>id\<close> is the string of the path, and 404 when no book has it.
\<close>

theorem book_by_id:
  assumes "readJsonFile st Books = Inr booksData"
    and "collection booksData ''books'' = Inr books"
    and "\<forall>b \<in> set books. \<not> nullish b"
  shows "get_book_by_id req st =
           (case find (\<lambda>b. get_field b ''id'' = JStr (param (params req) ''id'')) books of
              Some book \<Rightarrow> (Response 200 (JObj [(''success'', JBool True), (''data'', book)]), st)
            | None \<Rightarrow>
                (Response 404 (error_body ''Book not found''
                   (''No book found with ID: '' @ param (params req) ''id'')), st))"
proof -
  let ?w = "param (params req) ''id''"
  let ?q = "\<lambda>b. get_field b ''id'' = JStr ?w"
  have "js_find (field_is ''id'' ?w) books = Inr (find ?q books)"
    using assms(3) by (intro js_find_total) (simp add: field_is_total)
  then have found: "find_book ?w st = Inr (find ?q books)"
    using assms(1,2) by (simp add: find_book_def)
  show ?thesis
  proof (cases "find ?q books")
    case None
    with found show ?thesis
      by (simp add: get_book_by_id_def Let_def book_not_found_def)
  next
    case (Some book)
    then have "?q book"
      by (auto simp: find_Some_iff)
    then have "\<not> falsy book"
      by (rule has_field_truthy)
    with found Some show ?thesis
      by (simp add: get_book_by_id_def Let_def)
  qed
qed

theorem book_by_id_witness:
  "get_book_by_id (get_request [] [(''id'', ''2'')]) sample_store =
     (Response 200 (JObj [(''success'', JBool True), (''data'', book_two)]), sample_store)
   \<and> get_book_by_id (get_request [] [(''id'', ''02'')]) sample_store =
     (Response 404 (error_body ''Book not found'' ''No book found with ID: 02''), sample_store)"
proof -
  have h1: "readJsonFile sample_store Books = Inr (JObj [(''books'', JArr [book_one, book_two])])"
    by (simp add: sample_store_def readJsonFile_store_with)
  have h2: "collection (JObj [(''books'', JArr [book_one, book_two])]) ''books'' = Inr [book_one, book_two]"
    by (rule collection_field)
  have h3: "\<forall>b \<in> set [book_one, book_two]. \<not> nullish b"
    by (simp add: book_one_def book_two_def)
  have p1: "param (params (get_request [] [(''id'', ''2'')])) ''id'' = ''2''"
    and p2: "param (params (get_request [] [(''id'', ''02'')])) ''id'' = ''02''"
    by (simp_all add: get_request_def)
  have f1: "find (\<lambda>b. get_field b ''id'' = JStr ''2'') [book_one, book_two] = Some book_two"
    and f2: "find (\<lambda>b. get_field b ''id'' = JStr ''02'') [book_one, book_two] = None"
    by (simp_all add: book_one_def book_two_def)
  from book_by_id [OF h1 h2 h3, of "get_request [] [(''id'', ''2'')]"]
    book_by_id [OF h1 h2 h3, of "get_request [] [(''id'', ''02'')]"]
  show ?thesis
    unfolding p1 p2 f1 f2 by simp
qed

section \<open>Reviews of a book\<close>

text \<open>
  C8. With a reviews file that holds an array of reviews none of which has the requested
  \<open>bookId\<close>, GET /api/reviews/book/:bookId answers 200 with \<open>success: true\<close>,
  \<open>count: 0\<close> and an empty list.
\<close>

theorem no_reviews_is_success:
  assumes "readJsonFile st Reviews = Inr reviewsData"
    and "collection reviewsData ''reviews'' = Inr reviews"
    and "\<forall>r \<in> set reviews. \<not> nullish r"
    and "\<forall>r \<in> set reviews. get_field r ''bookId'' \<noteq> JStr (param (params req) ''bookId'')"
  shows "get_reviews_by_book req st =
           (Response 200 (JObj
              [(''success'', JBool True),
               (''message'', JStr (''No reviews found for book with ID: '' @ param (params req) ''bookId'')),
               (''count'', JNum (Fin 0)),
               (''data'', JArr [])]), st)"
proof -
  let ?w = "param (params req) ''bookId''"
  have "js_filter (field_is ''bookId'' ?w) reviews
          = Inr (filter (\<lambda>r. get_field r ''bookId'' = JStr ?w) reviews)"
    using assms(3) by (intro js_filter_total) (simp add: field_is_total)
  also have "filter (\<lambda>r. get_field r ''bookId'' = JStr ?w) reviews = []"
    using assms(4) by (simp add: filter_empty_conv)
  finally have "book_reviews ?w st = Inr []"
    using assms(1,2) by (simp add: book_reviews_def)
  then show ?thesis
    by (simp add: get_reviews_by_book_def Let_def)
qed

theorem no_reviews_is_success_witness:
  "get_reviews_by_book (get_request [] [(''bookId'', ''2'')]) sample_store =
     (Response 200 (JObj
        [(''success'', JBool True),
         (''message'', JStr ''No reviews found for book with ID: 2''),
         (''count'', JNum (Fin 0)),
         (''data'', JArr [])]), sample_store)"
proof -
  let ?req = "get_request [] [(''bookId'', ''2'')]"
  have p: "param (params ?req) ''bookId'' = ''2''"
    by (simp add: get_request_def)
  have h1: "readJsonFile sample_store Reviews = Inr (JObj [(''reviews'', JArr [review_one])])"
    by (simp add: sample_store_def readJsonFile_store_with)
  have h2: "collection (JObj [(''reviews'', JArr [review_one])]) ''reviews'' = Inr [review_one]"
    by (rule collection_field)
  have h3: "\<forall>r \<in> set [review_one]. \<not> nullish r"
    by (simp add: review_one_def)
  have h4: "\<forall>r \<in> set [review_one]. get_field r ''bookId'' \<noteq> JStr (param (params ?req) ''bookId'')"
    by (simp add: p review_one_def)
  from no_reviews_is_success [OF h1 h2 h3 h4] show ?thesis
    unfolding p by simp
qed

section \<open>Sorting by score\<close>

lemma js_ge_total: "x \<noteq> NaN \<Longrightarrow> y \<noteq> NaN \<Longrightarrow> js_ge x y \<or> js_ge y x"
  by (cases x; cases y) auto

lemma js_ge_trans: "js_ge x y \<Longrightarrow> js_ge y z \<Longrightarrow> js_ge x z"
  by (cases x; cases y; cases z) auto

lemma js_ge_refl: "x \<noteq> NaN \<Longrightarrow> js_ge x x"
  by (cases x) auto

text \<open>The sign of a difference of two numbers tells their order.\<close>

lemma sign_js_sub:
  assumes "x \<noteq> NaN" and "y \<noteq> NaN"
  shows "(sign_of (js_sub y x) > 0) = (\<not> js_ge x y)"
    and "(sign_of (js_sub y x) < 0) = (\<not> js_ge y x)"
    and "(sign_of (js_sub y x) = 0) = (js_ge x y \<and> js_ge y x)"
  using assms by (cases x; cases y; auto simp: js_sub_def)+

lemma by_score_signs:
  assumes "score_in a \<noteq> NaN" and "score_in b \<noteq> NaN"
  shows "(sign_of (by_score a b) > 0) = (\<not> js_ge (score_in a) (score_in b))"
    and "(sign_of (by_score a b) < 0) = (\<not> js_ge (score_in b) (score_in a))"
    and "(sign_of (by_score a b) = 0) = (js_ge (score_in a) (score_in b) \<and> js_ge (score_in b) (score_in a))"
  using assms sign_js_sub [of "score_in a" "score_in b"]
  by (simp_all add: by_score_def score_in_def)

lemma consistent_by_score:
  assumes "\<forall>e \<in> set es. score_in e \<noteq> NaN"
  shows "consistent by_score es"
  unfolding consistent_def
proof (intro ballI)
  fix a b c
  assume "a \<in> set es" "b \<in> set es" "c \<in> set es"
  then have n: "score_in a \<noteq> NaN" "score_in b \<noteq> NaN" "score_in c \<noteq> NaN"
    using assms by auto
  show "sign_of (by_score a a) = 0
      \<and> (sign_of (by_score a b) = 0 \<longrightarrow> sign_of (by_score b a) = 0)
      \<and> (sign_of (by_score a b) = 0 \<and> sign_of (by_score b c) = 0 \<longrightarrow> sign_of (by_score a c) = 0)
      \<and> (sign_of (by_score a b) < 0 \<and> sign_of (by_score b c) < 0 \<longrightarrow> sign_of (by_score a c) < 0)
      \<and> (sign_of (by_score a b) > 0 \<and> sign_of (by_score b c) > 0 \<longrightarrow> sign_of (by_score a c) > 0)"
    using n js_ge_refl [of "score_in a"]
      js_ge_total [of "score_in a" "score_in b"] js_ge_total [of "score_in b" "score_in c"]
      js_ge_total [of "score_in a" "score_in c"]
      js_ge_trans [of "score_in a" "score_in b" "score_in c"]
      js_ge_trans [of "score_in c" "score_in b" "score_in a"]
      js_ge_trans [of "score_in b" "score_in a" "score_in c"]
      js_ge_trans [of "score_in a" "score_in c" "score_in b"]
      js_ge_trans [of "score_in b" "score_in c" "score_in a"]
      js_ge_trans [of "score_in c" "score_in a" "score_in b"]
    by (simp add: by_score_signs) blast
qed

lemma set_sort_insert: "set (sort_insert cmp x ys) = insert x (set ys)"
  by (induction ys) auto

lemma set_stable_sort: "set (stable_sort cmp xs) = set xs"
  by (induction xs) (auto simp: set_sort_insert)

lemma set_rearranged: "set (rearranged ps xs) = set xs"
proof (cases "sort ps = [0..<length xs]")
  case True
  then have "set ps = {0..<length xs}"
    by (metis set_sort set_upt)
  then have "set (map (\<lambda>i. xs ! i) ps) = (\<lambda>i. xs ! i) ` {0..<length xs}"
    by simp
  also have "\<dots> = set xs"
    using nth_image [of "length xs" xs] by simp
  finally have "set (map (\<lambda>i. xs ! i) ps) = set xs" .
  with True show ?thesis
    by (simp add: rearranged_def)
next
  case False
  then show ?thesis
    by (simp add: rearranged_def)
qed

lemma set_js_sort: "set (js_sort E cmp xs) = set xs"
  by (simp add: js_sort_def set_stable_sort set_rearranged)

lemma descending_sort_insert:
  assumes "score_in x \<noteq> NaN" and "\<forall>y \<in> set ys. score_in y \<noteq> NaN"
    and "descending_scores ys"
  shows "descending_scores (sort_insert by_score x ys)"
  using assms
proof (induction ys)
  case Nil
  then show ?case by (simp add: descending_scores_def)
next
  case (Cons y ys)
  have pos: "(sign_of (by_score x y) > 0) = (\<not> js_ge (score_in x) (score_in y))"
    using Cons.prems(1,2) by (simp add: by_score_signs)
  show ?case
  proof (cases "sign_of (by_score x y) > 0")
    case True
    then have yx: "js_ge (score_in y) (score_in x)"
      using pos js_ge_total [of "score_in x" "score_in y"] Cons.prems(1,2) by auto
    have "descending_scores (sort_insert by_score x ys)"
      using Cons by (simp add: descending_scores_def)
    then show ?thesis
      using True yx Cons.prems(3) by (auto simp: descending_scores_def set_sort_insert)
  next
    case False
    then have xy: "js_ge (score_in x) (score_in y)"
      using pos by simp
    then have "\<forall>z \<in> set ys. js_ge (score_in x) (score_in z)"
      using Cons.prems(3) by (auto simp: descending_scores_def intro: js_ge_trans)
    then show ?thesis
      using False xy Cons.prems(3) by (simp add: descending_scores_def)
  qed
qed

lemma descending_stable_sort:
  "\<forall>x \<in> set xs. score_in x \<noteq> NaN \<Longrightarrow> descending_scores (stable_sort by_score xs)"
proof (induction xs)
  case Nil
  then show ?case by (simp add: descending_scores_def)
next
  case (Cons x xs)
  then show ?case
    by (simp add: descending_sort_insert set_stable_sort)
qed

lemma descending_js_sort:
  "\<forall>x \<in> set xs. score_in x \<noteq> NaN \<Longrightarrow> descending_scores (js_sort E by_score xs)"
  by (simp add: js_sort_def consistent_by_score descending_stable_sort)

lemma descending_take: "descending_scores xs \<Longrightarrow> descending_scores (take n xs)"
  unfolding descending_scores_def
  by (metis append_take_drop_id sorted_wrt_append)

section \<open>Entries of the top-rated list\<close>

lemma lookup_set_field: "lookup (set_field fs k v) k = v"
  by (induction fs) auto

lemma lookup_set_field_other: "k' \<noteq> k \<Longrightarrow> lookup (set_field fs k v) k' = lookup fs k'"
  by (induction fs) auto

lemma lookup_assign_all_other:
  "k \<notin> fst ` set src \<Longrightarrow> lookup (assign_all acc src) k = lookup acc k"
  by (induction acc src rule: assign_all.induct) (auto simp: lookup_set_field_other)


lemma digit_char_decimal:
  assumes "d < 10"
  shows "is_decimal (digit_char d)"
proof -
  from assms have "d \<in> {0, 1, 2, 3, 4, 5, 6, 7, 8, 9}" by auto
  then show ?thesis
    by (auto simp: is_decimal_def digit_char_def)
qed

lemma digits_decimal: "c \<in> set (digits n) \<Longrightarrow> is_decimal c"
proof (induction n arbitrary: c rule: digits.induct)
  case (1 n)
  show ?case
  proof (cases "n < 10")
    case True
    with "1.prems" show ?thesis
      by (simp add: digits.simps [of n] digit_char_decimal)
  next
    case False
    with "1.prems" have "c \<in> set (digits (n div 10)) \<or> c = digit_char (n mod 10)"
      by (auto simp: digits.simps [of n])
    then show ?thesis
      using "1.IH" [OF False] digit_char_decimal [of "n mod 10"] by auto
  qed
qed

text \<open>An index is not the name of a field: spreading an array or a string adds none.\<close>

lemma lookup_indexed:
  assumes "\<exists>c \<in> set k. \<not> is_decimal c"
  shows "lookup (indexed i xs) k = JUndefined"
proof (induction xs arbitrary: i)
  case Nil
  then show ?case by simp
next
  case (Cons x xs)
  have "digits i \<noteq> k"
    using assms digits_decimal by blast
  with Cons show ?case by simp
qed

lemma get_field_own_props:
  assumes "\<exists>c \<in> set k. \<not> is_decimal c"
  shows "lookup (own_props b) k = get_field b k"
  using assms by (cases b) (simp_all add: lookup_indexed)

lemma rated_own_props:
  "lookup (own_props b) ''rating'' = get_field b ''rating''"
  "lookup (own_props b) ''reviewCount'' = get_field b ''reviewCount''"
  by (rule get_field_own_props, simp add: is_decimal_def)+

lemma book_score_product:
  "(book_score E b = Inr n) = (rating_times_reviews E b = Some n)"
  by (auto simp: book_score_def rating_times_reviews_def split: sum.splits)

lemma with_score_entry:
  "(with_score E b = Inr e) = (\<not> nullish b \<and> (\<exists>n. rating_times_reviews E b = Some n \<and> e = entry b n))"
  by (auto simp: with_score_def entry_def book_score_product [symmetric] split: sum.splits)

lemma score_in_entry: "score_in (entry b n) = n"
  by (simp add: score_in_def entry_def lookup_set_field)

lemma product_entry: "rating_times_reviews E (entry b n) = rating_times_reviews E b"
  by (simp add: rating_times_reviews_def entry_def lookup_set_field_other rated_own_props)

lemma js_map_with_score:
  assumes "\<forall>b \<in> set books. \<not> nullish b \<and> rating_times_reviews E b \<noteq> None"
  shows "js_map (with_score E) books
           = Inr (map (\<lambda>b. entry b (the (rating_times_reviews E b))) books)"
  using assms by (intro js_map_total) (auto simp: with_score_entry)

lemma descending_products_entries:
  assumes "descending_scores es"
    and "\<forall>e \<in> set es. rating_times_reviews E e = Some (score_in e)"
  shows "descending_products E es"
  using assms unfolding descending_scores_def descending_products_def
  by (induction es) (auto simp: product_ge_def)

text \<open>
  C3, as amended. With a books file that holds an array of books whose \<open>rating\<close> and
  \<open>reviewCount\<close> all have numbers (no conversion throws), GET /api/books/top-rated
  answers 200 with at most 10 entries and their count; when no product
  \<open>rating * reviewCount\<close> is \<open>NaN\<close>, the entries are in descending order of the product
  of their \<open>rating\<close> and \<open>reviewCount\<close>.
\<close>

theorem top_rated_sorted:
  assumes "readJsonFile st Books = Inr booksData"
    and "collection booksData ''books'' = Inr books"
    and "\<forall>b \<in> set books. \<not> nullish b \<and> rating_times_reviews E b \<noteq> None"
  shows "\<exists>entries.
           get_books_top_rated E req st =
             (Response 200 (JObj
                [(''success'', JBool True),
                 (''count'', count_of entries),
                 (''data'', JArr entries)]), st)
         \<and> length entries \<le> 10
         \<and> ((\<forall>b \<in> set books. rating_times_reviews E b \<noteq> Some NaN)
              \<longrightarrow> descending_products E entries)"
proof -
  let ?f = "\<lambda>b. the (rating_times_reviews E b)"
  let ?es = "map (\<lambda>b. entry b (?f b)) books"
  let ?entries = "take 10 (js_sort E by_score ?es)"
  have some: "rating_times_reviews E b = Some (?f b)" if "b \<in> set books" for b
    using that assms(3) by auto
  have prod: "rating_times_reviews E e = Some (score_in e)" if "e \<in> set ?es" for e
  proof -
    from that obtain b where b: "b \<in> set books" "e = entry b (?f b)"
      by auto
    then show ?thesis
      using some [OF b(1)] by (simp only: product_entry score_in_entry)
  qed
  have sub: "set ?entries \<subseteq> set ?es"
    using set_js_sort [of E by_score ?es] set_take_subset [of 10 "js_sort E by_score ?es"]
    by simp
  have "top_rated E st = Inr ?entries"
    using assms by (simp add: top_rated_def js_map_with_score)
  then have answer: "get_books_top_rated E req st =
             (Response 200 (JObj
                [(''success'', JBool True),
                 (''count'', count_of ?entries),
                 (''data'', JArr ?entries)]), st)"
    by (simp add: get_books_top_rated_def)
  have short: "length ?entries \<le> 10"
    by simp
  have sorted: "(\<forall>b \<in> set books. rating_times_reviews E b \<noteq> Some NaN)
              \<longrightarrow> descending_products E ?entries"
  proof
    assume no_nan: "\<forall>b \<in> set books. rating_times_reviews E b \<noteq> Some NaN"
    have "score_in e \<noteq> NaN" if "e \<in> set ?es" for e
    proof -
      from that obtain b where b: "b \<in> set books" "e = entry b (?f b)"
        by auto
      then show ?thesis
        using some [OF b(1)] no_nan by (auto simp: score_in_entry)
    qed
    then have "descending_scores ?entries"
      by (intro descending_take descending_js_sort) simp
    moreover have "\<forall>e \<in> set ?entries. rating_times_reviews E e = Some (score_in e)"
      using prod sub by blast
    ultimately show "descending_products E ?entries"
      by (rule descending_products_entries)
  qed
  from answer short sorted show ?thesis
    by (intro exI [of _ ?entries] conjI)
qed

lemma sample_products:
  "js_mul (Fin (9 / 2)) (Fin 10) = Fin 45" "js_mul (Fin 5) (Fin 20) = Fin 100"
  "js_mul (Fin 1) (Fin 1) = Fin 1" "js_mul (Fin 5) (Fin 5) = Fin 25"
  by code_simp+


lemma sample_scores:
  "rating_times_reviews sample_env book_one = Some (Fin 45)"
  "rating_times_reviews sample_env book_two = Some (Fin 100)"
  by (simp_all add: rating_times_reviews_def book_one_def book_two_def sample_products)

lemma sample_top_rated:
  "get_books_top_rated sample_env no_request sample_store =
     (Response 200 (JObj
        [(''success'', JBool True),
         (''count'', JNum (Fin 2)),
         (''data'', JArr
            [JObj [(''id'', JStr ''2''), (''title'', JStr ''Beta''), (''author'', JStr ''Bob''),
                   (''price'', JNum (Fin 12)), (''rating'', JNum (Fin 5)),
                   (''reviewCount'', JNum (Fin 20)), (''datePublished'', JStr ''2021-03-01''),
                   (''score'', JNum (Fin 100))],
             JObj [(''id'', JStr ''1''), (''title'', JStr ''Alpha''), (''author'', JStr ''Ann''),
                   (''price'', JNum (Fin 10)), (''rating'', JNum (Fin (9 / 2))),
                   (''reviewCount'', JNum (Fin 10)), (''datePublished'', JStr ''2020-06-15''),
                   (''score'', JNum (Fin 45))]])]), sample_store)"
  by code_simp

lemma sample_books_ok:
  "\<forall>b \<in> set [book_one, book_two]. \<not> nullish b \<and> rating_times_reviews sample_env b \<noteq> None"
  by (simp add: sample_scores) (simp add: book_one_def book_two_def)

theorem top_rated_sorted_witness:
  "rating_times_reviews sample_env book_one = Some (Fin 45)
   \<and> rating_times_reviews sample_env book_two = Some (Fin 100)
   \<and> get_books_top_rated sample_env no_request sample_store = (Response 200 (JObj
        [(''success'', JBool True),
         (''count'', JNum (Fin 2)),
         (''data'', JArr
            [JObj [(''id'', JStr ''2''), (''title'', JStr ''Beta''), (''author'', JStr ''Bob''),
                   (''price'', JNum (Fin 12)), (''rating'', JNum (Fin 5)),
                   (''reviewCount'', JNum (Fin 20)), (''datePublished'', JStr ''2021-03-01''),
                   (''score'', JNum (Fin 100))],
             JObj [(''id'', JStr ''1''), (''title'', JStr ''Alpha''), (''author'', JStr ''Ann''),
                   (''price'', JNum (Fin 10)), (''rating'', JNum (Fin (9 / 2))),
                   (''reviewCount'', JNum (Fin 10)), (''datePublished'', JStr ''2020-06-15''),
                   (''score'', JNum (Fin 45))]])]), sample_store)
   \<and> descending_products sample_env
        [JObj [(''id'', JStr ''2''), (''title'', JStr ''Beta''), (''author'', JStr ''Bob''),
                   (''price'', JNum (Fin 12)), (''rating'', JNum (Fin 5)),
                   (''reviewCount'', JNum (Fin 20)), (''datePublished'', JStr ''2021-03-01''),
                   (''score'', JNum (Fin 100))],
         JObj [(''id'', JStr ''1''), (''title'', JStr ''Alpha''), (''author'', JStr ''Ann''),
                   (''price'', JNum (Fin 10)), (''rating'', JNum (Fin (9 / 2))),
                   (''reviewCount'', JNum (Fin 10)), (''datePublished'', JStr ''2020-06-15''),
                   (''score'', JNum (Fin 45))]]"
proof -
  have n: "\<forall>b \<in> set [book_one, book_two]. rating_times_reviews sample_env b \<noteq> Some NaN"
    by (simp add: sample_scores)
  from top_rated_sorted [OF sample_books_file collection_field sample_books_ok, of no_request]
  obtain entries where e: "get_books_top_rated sample_env no_request sample_store =
             (Response 200 (JObj
                [(''success'', JBool True),
                 (''count'', count_of entries),
                 (''data'', JArr entries)]), sample_store)"
    and d: "(\<forall>b \<in> set [book_one, book_two]. rating_times_reviews sample_env b \<noteq> Some NaN)
            \<longrightarrow> descending_products sample_env entries"
    by blast
  from e have "entries =
        [JObj [(''id'', JStr ''2''), (''title'', JStr ''Beta''), (''author'', JStr ''Bob''),
                   (''price'', JNum (Fin 12)), (''rating'', JNum (Fin 5)),
                   (''reviewCount'', JNum (Fin 20)), (''datePublished'', JStr ''2021-03-01''),
                   (''score'', JNum (Fin 100))],
         JObj [(''id'', JStr ''1''), (''title'', JStr ''Alpha''), (''author'', JStr ''Ann''),
                   (''price'', JNum (Fin 10)), (''rating'', JNum (Fin (9 / 2))),
                   (''reviewCount'', JNum (Fin 10)), (''datePublished'', JStr ''2020-06-15''),
                   (''score'', JNum (Fin 45))]]"
    unfolding sample_top_rated by simp
  with d n show ?thesis
    using sample_scores sample_top_rated by blast
qed

text \<open>
  C3 as stated fails on a collection with a book that has no \<open>rating\<close>: its score is
  \<open>NaN\<close>, the comparator returns \<open>NaN\<close> against it, and the book with score 1 stays
  ahead of the book with score 25.
\<close>

theorem top_rated_unsorted_counterexample:
  "get_books_top_rated sample_env no_request (store_with [low_book, unrated_book, high_book] []) =
     (Response 200 (JObj
        [(''success'', JBool True),
         (''count'', JNum (Fin 3)),
         (''data'', JArr
            [JObj [(''id'', JStr ''1''), (''rating'', JNum (Fin 1)), (''reviewCount'', JNum (Fin 1)),
                   (''score'', JNum (Fin 1))],
             JObj [(''id'', JStr ''2''), (''score'', JNum NaN)],
             JObj [(''id'', JStr ''3''), (''rating'', JNum (Fin 5)), (''reviewCount'', JNum (Fin 5)),
                   (''score'', JNum (Fin 25))]])]),
      store_with [low_book, unrated_book, high_book] [])
   \<and> \<not> descending_products sample_env
        [JObj [(''id'', JStr ''1''), (''rating'', JNum (Fin 1)), (''reviewCount'', JNum (Fin 1)),
               (''score'', JNum (Fin 1))],
         JObj [(''id'', JStr ''2''), (''score'', JNum NaN)],
         JObj [(''id'', JStr ''3''), (''rating'', JNum (Fin 5)), (''reviewCount'', JNum (Fin 5)),
               (''score'', JNum (Fin 25))]]"
  by code_simp



section \<open>Creating a book\<close>

lemma read_put_content: "readJsonFile (put_content st f v) f = Inr v"
  by (cases f) (simp_all add: readJsonFile_def put_content_def file_of_def)

lemma write_fault_put_content:
  "write_fault (file_of (put_content st f v) g) = write_fault (file_of st g)"
  by (cases f; cases g) (simp_all add: put_content_def file_of_def)

lemma writeJsonFile_ok:
  "write_fault (file_of st f) = None \<Longrightarrow> writeJsonFile st f v = Inr (put_content st f v)"
  by (simp add: writeJsonFile_def)

lemma write_fault_store_with: "write_fault (file_of (store_with bs rs) f) = None"
  by (cases f) (simp_all add: file_of_def store_with_def)

lemma number_to_string_int:
  assumes "\<bar>k\<bar> < 10 ^ 21"
  shows "number_to_string E (Fin (of_int k)) = int_string k"
proof -
  have "\<bar>(of_int k :: rat)\<bar> < 10 ^ 21"
    using assms by (metis of_int_abs of_int_less_iff of_int_numeral of_int_power)
  then show ?thesis
    by (simp add: number_to_string_def)
qed

lemma digits_nonempty: "digits n \<noteq> []"
  by (simp add: digits.simps [of n])

lemma digit_of_digit_char:
  assumes "d < 10"
  shows "digit_of 10 (digit_char d) = Some d"
proof -
  from assms have "d \<in> {0, 1, 2, 3, 4, 5, 6, 7, 8, 9}" by auto
  then show ?thesis
    by (auto simp: digit_of_def digit_value_def digit_char_def)
qed

lemma decimal_radix_digit: "is_decimal c \<Longrightarrow> radix_digit 10 c"
  by (auto simp: is_decimal_def radix_digit_def digit_of_def digit_value_def)

lemma decimal_not_space: "is_decimal c \<Longrightarrow> \<not> is_space c"
  by (auto simp: is_decimal_def is_space_def)

lemma decimal_not_sign:
  "is_decimal c \<Longrightarrow> c \<noteq> CHR ''-'' \<and> c \<noteq> CHR ''+'' \<and> c \<noteq> CHR ''x'' \<and> c \<noteq> CHR ''X''"
  by (auto simp: is_decimal_def)

lemma radix_value_append:
  "radix_value r acc (xs @ ys) =
     (case radix_value r acc xs of None \<Rightarrow> None | Some a \<Rightarrow> radix_value r a ys)"
  by (induction xs arbitrary: acc) (auto split: option.splits)

lemma radix_value_digits: "radix_value 10 0 (digits n) = Some n"
proof (induction n rule: digits.induct)
  case (1 n)
  show ?case
  proof (cases "n < 10")
    case True
    then show ?thesis
      by (simp add: digits.simps [of n] digit_of_digit_char)
  next
    case False
    have "radix_value 10 0 (digits n)
            = radix_value 10 (n div 10) [digit_char (n mod 10)]"
      using False "1.IH" by (simp add: digits.simps [of n] radix_value_append)
    also have "\<dots> = Some (n div 10 * 10 + n mod 10)"
      by (simp add: digit_of_digit_char)
    finally show ?thesis by simp
  qed
qed

lemma strip_prefix_decimal:
  "\<forall>c \<in> set s. is_decimal c \<Longrightarrow> strip_prefix s = (10, s)"
  by (cases s rule: strip_prefix.cases) (auto dest: decimal_not_sign)

lemma strip_sign_decimal:
  "\<forall>c \<in> set s. is_decimal c \<Longrightarrow> strip_sign s = (False, s)"
  by (cases s) (auto dest: decimal_not_sign)

lemma dropWhile_space_decimal:
  "\<forall>c \<in> set s. is_decimal c \<Longrightarrow> dropWhile is_space s = s"
  by (cases s) (auto dest: decimal_not_space)

lemma parse_digits: "parse_int_string (digits n) = Fin (of_nat n)"
proof -
  have dec: "\<forall>c \<in> set (digits n). is_decimal c"
    by (simp add: digits_decimal)
  then have tw: "takeWhile (radix_digit 10) (digits n) = digits n"
    by (simp add: decimal_radix_digit)
  show ?thesis
    using dec by (simp add: parse_int_string_def dropWhile_space_decimal strip_sign_decimal
        strip_prefix_decimal tw digits_nonempty radix_value_digits)
qed

lemma parse_minus_digits: "parse_int_string (CHR ''-'' # digits n) = Fin (- of_nat n)"
proof -
  have dec: "\<forall>c \<in> set (digits n). is_decimal c"
    by (simp add: digits_decimal)
  then have tw: "takeWhile (radix_digit 10) (digits n) = digits n"
    by (simp add: decimal_radix_digit)
  have sp: "\<not> is_space CHR ''-''"
    by (simp add: is_space_def)
  show ?thesis
    using dec sp by (simp add: parse_int_string_def
        strip_prefix_decimal tw digits_nonempty radix_value_digits)
qed

text \<open>Printing an integer and parsing it back gives the integer.\<close>

lemma parse_int_string_roundtrip: "parse_int_string (int_string k) = Fin (of_int k)"
proof (cases "k < 0")
  case True
  then have "(of_nat (nat (- k)) :: rat) = of_int (- k)"
    by (metis neg_0_le_iff_le less_imp_le of_int_of_nat_eq int_nat_eq)
  with True show ?thesis
    by (simp add: int_string_def parse_minus_digits)
next
  case False
  then have "(of_nat (nat k) :: rat) = of_int k"
    by (metis of_nat_nat not_less)
  with False show ?thesis
    by (simp add: int_string_def parse_digits)
qed

lemma bookToAdd_id:
  "''id'' \<notin> fst ` set fs \<Longrightarrow> get_field (bookToAdd E new_id (JObj fs)) ''id'' = JStr new_id"
  by (simp add: bookToAdd_def Let_def lookup_set_field_other lookup_assign_all_other)

lemma max2_ints: "max2 (Fin (of_int a)) (Fin (of_int b)) = Fin (of_int (max a b))"
  by (simp add: max2_def max_def)

lemma foldl_max2_ints:
  "foldl max2 (Fin (of_int a)) (map (\<lambda>n. Fin (of_int n)) ns) = Fin (of_int (Max (set (a # ns))))"
proof (induction ns arbitrary: a)
  case Nil
  then show ?case by simp
next
  case (Cons n ns)
  have "Max (set (max a n # ns)) = Max (set (a # n # ns))"
    by (cases "ns = []") (auto simp: max.assoc max.commute)
  then show ?case
    using Cons.IH [of "max a n"] by (simp add: max2_ints)
qed

lemma math_max_ints:
  assumes "ns \<noteq> []"
  shows "math_max (map (\<lambda>n. Fin (of_int n)) ns) = Fin (of_int (Max (set ns)))"
proof -
  obtain n ms where ns: "ns = n # ms"
    using assms by (cases ns) auto
  have "max2 NInf (Fin (of_int n)) = Fin (of_int n)"
    by (simp add: max2_def)
  then show ?thesis
    using ns foldl_max2_ints [of n ms] by (simp add: math_max_def)
qed

lemma js_map_id_number:
  "list_all2 (numbered E) books ns \<Longrightarrow> js_map (id_number E) books = Inr (map (\<lambda>n. Fin (of_int n)) ns)"
  by (induction books ns rule: list_all2_induct)
     (auto simp: numbered_def id_number_def read_prop_def)

lemma next_id_ints:
  assumes "list_all2 (numbered E) books ns" and "ns \<noteq> []"
  shows "next_id E books = Inr (int_string (Max (set ns) + 1))"
proof -
  have "Max (set ns) \<in> set ns"
    using assms(2) by (intro Max_in) auto
  then obtain b where "numbered E b (Max (set ns))"
    using assms(1) by (metis in_set_conv_nth list_all2_conv_all_nth)
  then have "\<bar>Max (set ns)\<bar> < 2 ^ 53"
    by (simp add: numbered_def)
  then have "\<bar>Max (set ns) + 1\<bar> < 10 ^ 21"
    by simp
  then have "number_to_string E (Fin (of_int (Max (set ns) + 1))) = int_string (Max (set ns) + 1)"
    by (rule number_to_string_int)
  then show ?thesis
    using assms by (simp add: next_id_def js_map_id_number math_max_ints)
qed

lemma next_id_fresh:
  assumes "list_all2 (numbered E) books ns" and "b \<in> set books"
  shows "get_field b ''id'' \<noteq> JStr (int_string (Max (set ns) + 1))"
proof
  assume eq: "get_field b ''id'' = JStr (int_string (Max (set ns) + 1))"
  from assms obtain n where n: "n \<in> set ns" "numbered E b n"
    by (metis in_set_conv_nth list_all2_conv_all_nth)
  have "parseInt E (get_field b ''id'') = Inr (Fin (of_int (Max (set ns) + 1)))"
    using eq by (simp add: parseInt_def parse_int_string_roundtrip)
  then have "n = Max (set ns) + 1"
    using n(2) by (simp add: numbered_def)
  moreover have "n \<le> Max (set ns)"
    using n(1) by simp
  ultimately show False by simp
qed

text \<open>
  C2, as amended. With a valid key and an object body: a missing or falsy \<open>title\<close>,
  \<open>author\<close> or \<open>price\<close> is answered 400 and nothing is written. When the three are
  truthy, the body has no \<open>id\<close> of its own, the books file holds a non-empty array in
  which every book's \<open>id\<close> parses to an integer (below \<open>2^53\<close> in magnitude), and the
  write succeeds, the answer is 201 with a book whose \<open>id\<close> is the decimal numeral of
  the largest parsed id plus one; no stored book has that \<open>id\<close>, and the file now ends
  with the new book.
\<close>

theorem create_book_next_id:
  assumes "key_ok req" and "payload req = Accepted (JObj fs)"
  shows "(falsy (lookup fs ''title'') \<or> falsy (lookup fs ''author'') \<or> falsy (lookup fs ''price'')
            \<longrightarrow> status (fst (post_books E req st)) = 400 \<and> snd (post_books E req st) = st)
       \<and> (\<not> falsy (lookup fs ''title'') \<and> \<not> falsy (lookup fs ''author'')
            \<and> \<not> falsy (lookup fs ''price'') \<and> ''id'' \<notin> fst ` set fs
            \<and> readJsonFile st Books = Inr booksData
            \<and> collection booksData ''books'' = Inr books
            \<and> books \<noteq> [] \<and> list_all2 (numbered E) books ns
            \<and> write_fault (books_json st) = None
            \<longrightarrow> (\<exists>added.
                   post_books E req st =
                     (Response 201 (JObj
                        [(''success'', JBool True),
                         (''message'', JStr ''Book added successfully!''),
                         (''data'', added)]),
                      put_content st Books (pushed booksData ''books'' books added))
                 \<and> get_field added ''id'' = JStr (int_string (Max (set ns) + 1))
                 \<and> (\<forall>b \<in> set books. get_field b ''id'' \<noteq> get_field added ''id'')))"
proof (rule conjI; rule impI)
  assume "falsy (lookup fs ''title'') \<or> falsy (lookup fs ''author'') \<or> falsy (lookup fs ''price'')"
  then have "create_book E (JObj fs) st =
           (missing_fields ''Please provide title, author, and price for the new book.'', st)"
    by (intro create_book_missing) auto
  then show "status (fst (post_books E req st)) = 400 \<and> snd (post_books E req st) = st"
    using assms by (simp add: post_books_accepted missing_fields_def)
next
  assume h: "\<not> falsy (lookup fs ''title'') \<and> \<not> falsy (lookup fs ''author'')
            \<and> \<not> falsy (lookup fs ''price'') \<and> ''id'' \<notin> fst ` set fs
            \<and> readJsonFile st Books = Inr booksData
            \<and> collection booksData ''books'' = Inr books
            \<and> books \<noteq> [] \<and> list_all2 (numbered E) books ns
            \<and> write_fault (books_json st) = None"
  let ?new = "int_string (Max (set ns) + 1)"
  let ?added = "bookToAdd E ?new (JObj fs)"
  from h have "ns \<noteq> []"
    by (auto dest: list_all2_lengthD)
  with h have nid: "next_id E books = Inr ?new"
    by (simp add: next_id_ints)
  have wr: "writeJsonFile st Books (pushed booksData ''books'' books ?added)
              = Inr (put_content st Books (pushed booksData ''books'' books ?added))"
    using h by (simp add: writeJsonFile_def file_of_def)
  have "create_book E (JObj fs) st =
          (Response 201 (JObj
             [(''success'', JBool True),
              (''message'', JStr ''Book added successfully!''),
              (''data'', ?added)]),
           put_content st Books (pushed booksData ''books'' books ?added))"
    using h nid wr by (simp add: create_book_def Let_def)
  then have post: "post_books E req st =
          (Response 201 (JObj
             [(''success'', JBool True),
              (''message'', JStr ''Book added successfully!''),
              (''data'', ?added)]),
           put_content st Books (pushed booksData ''books'' books ?added))"
    using assms by (simp add: post_books_accepted)
  have id: "get_field ?added ''id'' = JStr ?new"
    using h by (simp add: bookToAdd_id)
  have "\<forall>b \<in> set books. get_field b ''id'' \<noteq> get_field ?added ''id''"
    using h id next_id_fresh [of E books ns] by auto
  with post id show "\<exists>added.
                   post_books E req st =
                     (Response 201 (JObj
                        [(''success'', JBool True),
                         (''message'', JStr ''Book added successfully!''),
                         (''data'', added)]),
                      put_content st Books (pushed booksData ''books'' books added))
                 \<and> get_field added ''id'' = JStr (int_string (Max (set ns) + 1))
                 \<and> (\<forall>b \<in> set books. get_field b ''id'' \<noteq> get_field added ''id'')"
    by blast
qed

lemma parse_nan: "parse_int_string ''NaN'' = NaN"
  by (simp add: parse_int_string_def is_space_def radix_digit_def digit_of_def digit_value_def)

lemma parse_one_two:
  "parse_int_string ''1'' = Fin 1" "parse_int_string ''2'' = Fin 2"
  "parse_int_string ''abc'' = NaN"
  by (simp_all add: parse_int_string_def is_space_def radix_digit_def digit_of_def digit_value_def)

lemma int_string_three: "int_string 3 = ''3''"
  by (simp add: int_string_def digits.simps digit_char_def)

lemma sample_numbered: "list_all2 (numbered sample_env) [book_one, book_two] [1, 2]"
  by (simp add: numbered_def parseInt_def book_one_def book_two_def parse_one_two)

theorem create_book_next_id_witness:
  "status (fst (post_books sample_env
      (post_request the_key (JObj [(''title'', JStr ''Gamma''), (''author'', JStr ''Di'')]))
      sample_store)) = 400
   \<and> (\<exists>added.
         post_books sample_env (post_request the_key new_book) sample_store =
           (Response 201 (JObj
              [(''success'', JBool True),
               (''message'', JStr ''Book added successfully!''),
               (''data'', added)]),
            put_content sample_store Books
              (pushed (JObj [(''books'', JArr [book_one, book_two])]) ''books''
                 [book_one, book_two] added))
       \<and> get_field added ''id'' = JStr ''3''
       \<and> (\<forall>b \<in> set [book_one, book_two]. get_field b ''id'' \<noteq> get_field added ''id''))"
proof -
  let ?short = "[(''title'', JStr ''Gamma''), (''author'', JStr ''Di'')]"
  let ?full = "[(''title'', JStr ''Gamma''), (''author'', JStr ''Di''), (''price'', JNum (Fin 3))]"
  have b: "payload (post_request the_key (JObj fs)) = Accepted (JObj fs)" for fs
    by (simp add: post_request_def)
  have w: "write_fault (books_json sample_store) = None"
    by (simp add: sample_store_def store_with_def)
  have m: "int_string (Max (set [1, 2]) + 1) = ''3''"
    using int_string_three by simp
  have "falsy (lookup ?short ''price'')"
    by simp
  then have "status (fst (post_books sample_env (post_request the_key (JObj ?short)) sample_store)) = 400"
    using create_book_next_id [OF key_ok_the_key b, of ?short sample_env sample_store]
    by blast
  moreover have "\<not> falsy (lookup ?full ''title'') \<and> \<not> falsy (lookup ?full ''author'')
            \<and> \<not> falsy (lookup ?full ''price'') \<and> ''id'' \<notin> fst ` set ?full"
    by simp
  then have "\<exists>added.
         post_books sample_env (post_request the_key (JObj ?full)) sample_store =
           (Response 201 (JObj
              [(''success'', JBool True),
               (''message'', JStr ''Book added successfully!''),
               (''data'', added)]),
            put_content sample_store Books
              (pushed (JObj [(''books'', JArr [book_one, book_two])]) ''books''
                 [book_one, book_two] added))
       \<and> get_field added ''id'' = JStr (int_string (Max (set [1, 2]) + 1))
       \<and> (\<forall>b \<in> set [book_one, book_two]. get_field b ''id'' \<noteq> get_field added ''id'')"
    using create_book_next_id [OF key_ok_the_key b, of ?full sample_env sample_store
        "JObj [(''books'', JArr [book_one, book_two])]" "[book_one, book_two]" "[1, 2]"]
      sample_books_file collection_field [of "''books''" "[book_one, book_two]"] sample_numbered w
    by blast
  ultimately show ?thesis
    unfolding m new_book_def by blast
qed

text \<open>
  C2 as stated fails on a collection with an id that is not a numeral: \<open>parseInt\<close>
  gives \<open>NaN\<close> for it, \<open>Math.max\<close> gives \<open>NaN\<close>, and the new id is the string
  \<open>NaN\<close>, not 2; a second creation is given the same id again.
\<close>

theorem create_book_id_counterexample:
  "fst (post_books sample_env (post_request the_key new_book) (store_with odd_id_books [])) =
     Response 201 (JObj
        [(''success'', JBool True),
         (''message'', JStr ''Book added successfully!''),
         (''data'', JObj
            [(''id'', JStr ''NaN''), (''title'', JStr ''Gamma''), (''author'', JStr ''Di''),
             (''price'', JNum (Fin 3)), (''rating'', JNum (Fin 0)), (''reviewCount'', JNum (Fin 0)),
             (''inStock'', JBool True), (''featured'', JBool False),
             (''datePublished'', JStr ''2024-05-01'')])])
   \<and> fst (post_books sample_env (post_request the_key new_book)
        (snd (post_books sample_env (post_request the_key new_book) (store_with odd_id_books [])))) =
     Response 201 (JObj
        [(''success'', JBool True),
         (''message'', JStr ''Book added successfully!''),
         (''data'', JObj
            [(''id'', JStr ''NaN''), (''title'', JStr ''Gamma''), (''author'', JStr ''Di''),
             (''price'', JNum (Fin 3)), (''rating'', JNum (Fin 0)), (''reviewCount'', JNum (Fin 0)),
             (''inStock'', JBool True), (''featured'', JBool False),
             (''datePublished'', JStr ''2024-05-01'')])])"
  by code_simp

section \<open>Creating a review\<close>

text \<open>
  What the handler does for a body without an \<open>id\<close> of its own: the id is
  \<open>review-\<close> followed by the generated UUID, \<open>timestamp\<close> is the time of the request
  whatever the body says, and \<open>verified\<close> is \<open>false\<close> unless the body gives it. The
  books file is not read, so \<open>bookId\<close> need not be the id of a book.
\<close>

lemma create_review_generated:
  assumes "key_ok req" and "payload req = Accepted (JObj fs)"
    and "\<not> falsy (lookup fs ''bookId'')" and "\<not> falsy (lookup fs ''author'')"
    and "\<not> falsy (lookup fs ''rating'')" and "\<not> falsy (lookup fs ''comment'')"
    and "''id'' \<notin> fst ` set fs"
    and "readJsonFile st Reviews = Inr reviewsData"
    and "collection reviewsData ''reviews'' = Inr reviews"
    and "write_fault (reviews_json st) = None"
  shows "post_reviews E req st =
           (Response 201 (JObj
              [(''success'', JBool True),
               (''message'', JStr ''Review added successfully!''),
               (''data'', reviewToAdd E (JObj fs))]),
            put_content st Reviews (pushed reviewsData ''reviews'' reviews (reviewToAdd E (JObj fs))))
       \<and> get_field (reviewToAdd E (JObj fs)) ''id'' = JStr (''review-'' @ random_uuid E)
       \<and> get_field (reviewToAdd E (JObj fs)) ''timestamp'' = JStr (now_iso E)
       \<and> (lookup fs ''verified'' = JUndefined \<longrightarrow>
            get_field (reviewToAdd E (JObj fs)) ''verified'' = JBool False)"
proof -
  have "writeJsonFile st Reviews v = Inr (put_content st Reviews v)" for v
    using assms(10) by (simp add: writeJsonFile_def file_of_def)
  then have "create_review E (JObj fs) st =
           (Response 201 (JObj
              [(''success'', JBool True),
               (''message'', JStr ''Review added successfully!''),
               (''data'', reviewToAdd E (JObj fs))]),
            put_content st Reviews (pushed reviewsData ''reviews'' reviews (reviewToAdd E (JObj fs))))"
    using assms(3-6,8,9) by (simp add: create_review_def Let_def)
  moreover have "get_field (reviewToAdd E (JObj fs)) ''id'' = JStr (''review-'' @ random_uuid E)"
    using assms(7)
    by (simp add: reviewToAdd_def Let_def lookup_set_field_other lookup_assign_all_other)
  moreover have "get_field (reviewToAdd E (JObj fs)) ''timestamp'' = JStr (now_iso E)"
    by (simp add: reviewToAdd_def Let_def lookup_set_field_other lookup_set_field)
  moreover have "get_field (reviewToAdd E (JObj fs)) ''verified'' = JBool False"
    if "lookup fs ''verified'' = JUndefined"
    using that by (simp add: reviewToAdd_def Let_def lookup_set_field default_to_def)
  ultimately show ?thesis
    using assms(1,2) by (simp add: post_reviews_accepted)
qed

text \<open>
  C5. The claim is that a created review carries an id generated as \<open>review-<uuid>\<close>.
  The object literal puts the generated \<open>id\<close> before the spread of the request body,
  so a body with an \<open>id\<close> field replaces it: here the new review is given the id of a
  review that is already stored, although the handler means to generate a unique one
  (\<open>timestamp\<close>, set after the spread, cannot be replaced this way).
\<close>

theorem create_review_id_overridden:
  "fst (post_reviews sample_env (post_request the_key review_with_id) sample_store) =
     Response 201 (JObj
        [(''success'', JBool True),
         (''message'', JStr ''Review added successfully!''),
         (''data'', JObj
            [(''id'', JStr ''review-1''), (''bookId'', JStr ''999''), (''author'', JStr ''Di''),
             (''rating'', JNum (Fin 3)), (''comment'', JStr ''Fine''),
             (''timestamp'', JStr ''2024-05-01T12:00:00.000Z''), (''verified'', JBool False)])])
   \<and> get_field review_one ''id'' = JStr ''review-1''"
  by code_simp

end
